theory Spec2Isabelle
  imports Complex_Main "HOL-Library.Multiset"
begin

section \<open>Conventions of the embedding\<close>

text \<open>
  The race-strategy core of the repository is Python over \<open>float\<close> and \<open>int\<close>.
  Python \<open>int\<close> is \<^typ>\<open>int\<close>; a finite Python \<open>float\<close> is a \<^typ>\<open>real\<close>.
  The rounding of IEEE doubles is modelled where a result depends on it, in the
  \<open>time_lost\<close> of \<open>pit_rejoin.py\<close> (the operations \<open>fadd\<close> and \<open>fmul\<close> below); everywhere
  else float arithmetic is exact real arithmetic, and overflow is not modelled. Where the
  source divides by a
  quantity that can be zero, the numpy result (\<open>nan\<close>, \<open>inf\<close>) is written out with the
  type \<open>npfloat\<close> below. Dictionaries with optional keys are records with
  \<^typ>\<open>'a option\<close> fields, a raised exception is the \<open>Inl\<close> of a sum.
\<close>

datatype error =
  AttributeError | TypeError | ValueError | ZeroDivisionError | KeyError | IndexError

text \<open>\<open>int()\<close> of a float truncates towards zero. On finite numbers Python's
  two-argument \<open>min\<close> and \<open>max\<close> are those of the reals.\<close>

definition py_int :: "real \<Rightarrow> int" where
  "py_int x = (if 0 \<le> x then \<lfloor>x\<rfloor> else \<lceil>x\<rceil>)"

section \<open>Double-precision arithmetic\<close>

text \<open>
  A double is a real of the form \<open>m * 2^e\<close> with an integer \<open>m\<close> of at most 53 bits.
  \<open>rnd x\<close> is the double nearest to \<open>x\<close>, ties going to the even significand
  (IEEE 754 round-to-nearest-even): \<open>x\<close> is scaled by a power of two into
  \<open>[2^52, 2^53)\<close>, rounded to an integer and scaled back. The exponent is unbounded, so
  overflow to \<open>inf\<close> and the subnormal range are left out. A float literal of the source
  that is not a double itself, such as \<open>0.8\<close>, denotes \<open>rnd 0.8\<close>; Python's \<open>a + b\<close> and
  \<open>a * b\<close> on floats are \<open>fadd\<close> and \<open>fmul\<close>.
\<close>

definition round_even :: "real \<Rightarrow> int" where
  "round_even y =
     (let f = \<lfloor>y\<rfloor>; d = y - of_int f
      in if d < 1/2 then f else if d > 1/2 then f + 1 else if even f then f else f + 1)"

definition rnd :: "real \<Rightarrow> real" where
  "rnd x =
     (if x = 0 then 0
      else let e = \<lfloor>log 2 \<bar>x\<bar>\<rfloor> - 52
           in of_int (round_even (x * 2 powi (- e))) * 2 powi e)"

definition fadd :: "real \<Rightarrow> real \<Rightarrow> real" where
  "fadd a b = rnd (a + b)"

definition fmul :: "real \<Rightarrow> real \<Rightarrow> real" where
  "fmul a b = rnd (a * b)"

section \<open>overtake.py: OvertakeProbabilityModel\<close>

definition sector_factor :: "string \<Rightarrow> real" where
  "sector_factor sector =
     (if sector = ''S1'' then 0.3 else if sector = ''S2'' then 0.5
      else if sector = ''S3'' then 0.4 else 0.4)"

definition speed_advantage :: "real \<Rightarrow> real \<Rightarrow> real" where
  "speed_advantage attacker_speed defender_speed =
     (let speed_delta = attacker_speed - defender_speed
      in if defender_speed > 0 then (speed_delta / defender_speed) * 0.5 else 0)"

definition position_proximity :: "int \<Rightarrow> int \<Rightarrow> real" where
  "position_proximity attacker_position defender_position =
     (if attacker_position \<noteq> defender_position
      then 1.0 / real_of_int \<bar>attacker_position - defender_position\<bar> else 0)"

definition tire_advantage :: "int \<Rightarrow> int \<Rightarrow> real" where
  "tire_advantage attacker_tire_age defender_tire_age =
     (let tire_age_delta = defender_tire_age - attacker_tire_age
      in min (real_of_int tire_age_delta / 20) 0.5)"

definition calculate_overtake_probability ::
  "real \<Rightarrow> real \<Rightarrow> int \<Rightarrow> int \<Rightarrow> int \<Rightarrow> int \<Rightarrow> string \<Rightarrow> real" where
  "calculate_overtake_probability attacker_speed defender_speed attacker_position
       defender_position attacker_tire_age defender_tire_age sector =
     (let base_prob = 0.1;
          probability = base_prob
            + speed_advantage attacker_speed defender_speed * 0.4
            + position_proximity attacker_position defender_position * 0.2
            + tire_advantage attacker_tire_age defender_tire_age * 0.2
            + sector_factor sector * 0.1
      in max 0.0 (min 1.0 probability))"

text \<open>The formula of the specification, word for word: the tyre-age term is clipped to
  \<open>[0, 0.5]\<close> there.\<close>

definition clip :: "real \<Rightarrow> real \<Rightarrow> real \<Rightarrow> real" where
  "clip x lo hi = min (max x lo) hi"

definition spec_overtake_probability ::
  "real \<Rightarrow> real \<Rightarrow> int \<Rightarrow> int \<Rightarrow> int \<Rightarrow> int \<Rightarrow> string \<Rightarrow> real" where
  "spec_overtake_probability attacker_speed defender_speed attacker_position
       defender_position attacker_tire_age defender_tire_age sector =
     clip (0.1
           + 0.4 * ((attacker_speed - defender_speed) / defender_speed * 0.5)
           + 0.2 * (1 / real_of_int \<bar>attacker_position - defender_position\<bar>)
           + 0.2 * clip (real_of_int (defender_tire_age - attacker_tire_age) / 20) 0 0.5
           + 0.1 * sector_factor sector) 0 1"

section \<open>pit_rejoin.py: PitRejoinSimulator\<close>

record traffic_impact =
  ti_cars_ahead :: real
  ti_traffic_loss_per_lap :: real
  ti_sector :: string
  ti_density :: real
  ti_clear_window :: bool

record rejoin_result =
  rr_driver_id :: string
  rr_pit_lap :: int
  rr_position_before_pit :: int
  rr_rejoin_position :: int
  rr_positions_lost :: int
  rr_time_lost :: real
  rr_ghost_position :: int
  rr_traffic_impact :: traffic_impact
  rr_rejoin_sector :: string

text \<open>\<open>_calculate_rejoin_time_loss\<close>, in double arithmetic. \<open>sector_penalties_get\<close> is
  \<open>sector_penalties.get(sector, d)\<close> on the dictionary \<open>{"S1": 0.8, "S2": 1.2,
  "S3": 1.0}\<close>; the literals \<open>1.5\<close>, \<open>1.0\<close> and \<open>0.5\<close> are doubles, \<open>0.8\<close> and \<open>1.2\<close> are
  rounded. \<open>base_rejoin_penalty * traffic_multiplier * sector_mult\<close> multiplies from the
  left.\<close>

definition sector_penalties_get :: "string \<Rightarrow> real \<Rightarrow> real" where
  "sector_penalties_get sector d =
     (if sector = ''S1'' then rnd 0.8 else if sector = ''S2'' then rnd 1.2
      else if sector = ''S3'' then 1.0 else d)"

definition calculate_rejoin_time_loss :: "real \<Rightarrow> string \<Rightarrow> real \<Rightarrow> real" where
  "calculate_rejoin_time_loss traffic_density sector average_lap_time =
     (let base_rejoin_penalty = 1.5;
          traffic_multiplier = fadd 1.0 (fmul traffic_density 0.5);
          sector_mult = sector_penalties_get sector 1.0
      in fmul (fmul base_rejoin_penalty traffic_multiplier) sector_mult)"

definition time_to_positions :: "real \<Rightarrow> real \<Rightarrow> real" where
  "time_to_positions time_lost average_lap_time =
     (let avg_gap_per_position = 1.0;
          positions_lost = time_lost / avg_gap_per_position
      in max 0.0 positions_lost)"

definition calculate_ghost_position :: "int \<Rightarrow> int \<Rightarrow> real \<Rightarrow> int" where
  "calculate_ghost_position current_position pit_lap average_lap_time =
     (let degradation_per_lap = 0.1;
          laps_since_pit_window = max 0 (pit_lap - 15);
          ghost_time_loss = real_of_int laps_since_pit_window * degradation_per_lap;
          ghost_positions_lost = ghost_time_loss / 1.0
      in min (current_position + py_int ghost_positions_lost) (current_position + 5))"

text \<open>\<open>_calculate_traffic_impact\<close> receives the rejoin position as the number
  \<open>min(current_position + positions_lost, total_cars)\<close>, before it is truncated.\<close>

definition calculate_traffic_impact :: "real \<Rightarrow> real \<Rightarrow> string \<Rightarrow> traffic_impact" where
  "calculate_traffic_impact rejoin_position traffic_density sector =
     (let cars_ahead = max 0 (rejoin_position - 1);
          base_penalty = 0.1;
          sector_mult = (if sector = ''S1'' then 0.8 else if sector = ''S2'' then 1.3
                         else if sector = ''S3'' then 1.0 else 1.0);
          density_mult = 1.0 + (traffic_density * 0.5);
          traffic_loss_per_lap = cars_ahead * base_penalty * sector_mult * density_mult
      in \<lparr> ti_cars_ahead = cars_ahead,
           ti_traffic_loss_per_lap = traffic_loss_per_lap,
           ti_sector = sector,
           ti_density = traffic_density,
           ti_clear_window = (traffic_loss_per_lap < 0.2) \<rparr>)"

text \<open>\<open>simulate_pit_rejoin\<close>; the \<open>timestamp\<close> entry of the returned dictionary is the
  wall clock and is left out. \<open>total_time_lost\<close> is the double sum of \<open>pit_time\<close> and the
  rejoin loss, and \<open>float(total_time_lost)\<close> returns it unchanged; the position arithmetic
  after it is in exact reals.\<close>

definition simulate_pit_rejoin ::
  "string \<Rightarrow> int \<Rightarrow> int \<Rightarrow> real \<Rightarrow> real \<Rightarrow> real \<Rightarrow> int \<Rightarrow> string \<Rightarrow> rejoin_result" where
  "simulate_pit_rejoin driver_id current_position pit_lap pit_time average_lap_time
       traffic_density total_cars sector_at_pit =
     (let total_time_lost = fadd pit_time
            (calculate_rejoin_time_loss traffic_density sector_at_pit average_lap_time);
          positions_lost = time_to_positions total_time_lost average_lap_time;
          rejoin_position = min (real_of_int current_position + positions_lost)
                                (real_of_int total_cars);
          ghost_position = calculate_ghost_position current_position pit_lap average_lap_time;
          traffic_impact = calculate_traffic_impact rejoin_position traffic_density sector_at_pit
      in \<lparr> rr_driver_id = driver_id,
           rr_pit_lap = pit_lap,
           rr_position_before_pit = current_position,
           rr_rejoin_position = py_int rejoin_position,
           rr_positions_lost = py_int positions_lost,
           rr_time_lost = total_time_lost,
           rr_ghost_position = ghost_position,
           rr_traffic_impact = traffic_impact,
           rr_rejoin_sector = sector_at_pit \<rparr>)"

section \<open>race_twin.py: the simulation count\<close>

text \<open>\<open>RaceTwinSimulator.__init__\<close> stores \<open>max(100, min(num_simulations, 500))\<close>.\<close>

definition RaceTwinSimulator_num_simulations :: "int \<Rightarrow> int" where
  "RaceTwinSimulator_num_simulations num_simulations = max 100 (min num_simulations 500)"

section \<open>numpy on finite data\<close>

text \<open>
  A numpy scalar division does not raise on a zero divisor: it yields \<open>inf\<close>, \<open>-inf\<close> or
  \<open>nan\<close> with a warning (the sign of a zero divisor is taken as positive).
  Python's \<open>min(a, b)\<close> returns \<open>b\<close> if \<open>b < a\<close> and \<open>a\<close> otherwise, \<open>max(a, b)\<close>
  returns \<open>b\<close> if \<open>b > a\<close> and \<open>a\<close> otherwise; every comparison with \<open>nan\<close> is false.
\<close>

datatype npfloat = Fin real | PosInf | NegInf | NaN

definition np_div :: "real \<Rightarrow> real \<Rightarrow> npfloat" where
  "np_div x y = (if y \<noteq> 0 then Fin (x / y)
                 else if x > 0 then PosInf else if x < 0 then NegInf else NaN)"

fun np_less :: "npfloat \<Rightarrow> npfloat \<Rightarrow> bool" where
  "np_less NaN _ = False"
| "np_less _ NaN = False"
| "np_less (Fin x) (Fin y) = (x < y)"
| "np_less (Fin x) PosInf = True"
| "np_less (Fin x) NegInf = False"
| "np_less PosInf _ = False"
| "np_less NegInf NegInf = False"
| "np_less NegInf _ = True"

definition py_min :: "npfloat \<Rightarrow> npfloat \<Rightarrow> npfloat" where
  "py_min a b = (if np_less b a then b else a)"

definition py_max :: "npfloat \<Rightarrow> npfloat \<Rightarrow> npfloat" where
  "py_max a b = (if np_less a b then b else a)"

fun np_clip :: "npfloat \<Rightarrow> real \<Rightarrow> real \<Rightarrow> npfloat" where
  "np_clip (Fin x) lo hi = Fin (min (max x lo) hi)"
| "np_clip PosInf lo hi = Fin hi"
| "np_clip NegInf lo hi = Fin lo"
| "np_clip NaN lo hi = NaN"

fun in_range :: "npfloat \<Rightarrow> real \<Rightarrow> real \<Rightarrow> bool" where
  "in_range (Fin x) lo hi = (lo \<le> x \<and> x \<le> hi)"
| "in_range _ lo hi = False"

text \<open>\<open>np.mean\<close>, \<open>np.std\<close> (population standard deviation) and \<open>np.percentile\<close>
  (linear interpolation between the two nearest ranks) of a non-empty array.\<close>

definition np_mean :: "real list \<Rightarrow> real" where
  "np_mean xs = sum_list xs / real (length xs)"

definition np_std :: "real list \<Rightarrow> real" where
  "np_std xs = sqrt (np_mean (map (\<lambda>x. (x - np_mean xs)\<^sup>2) xs))"

definition np_percentile :: "real list \<Rightarrow> real \<Rightarrow> real" where
  "np_percentile xs q =
     (let s = sort xs;
          n = length xs;
          h = real (n - 1) * q / 100;
          lo = nat \<lfloor>h\<rfloor>;
          hi = min (lo + 1) (n - 1)
      in s ! lo + (h - real lo) * (s ! hi - s ! lo))"

section \<open>driver_twin.py: DriverTwinGenerator\<close>

text \<open>
  \<open>scipy.optimize.curve_fit\<close> is a library routine outside the repository. It is a
  parameter of the model: given the base pace and the lap times it returns the fitted
  parameters, or \<open>None\<close> when it raises. \<open>SCIPY_AVAILABLE\<close> is the module flag set by the
  guarded import.
\<close>

record scipy =
  SCIPY_AVAILABLE :: bool
  curve_fit_exponential :: "real \<Rightarrow> real list \<Rightarrow> (real \<times> real) option"
  curve_fit_linear :: "real \<Rightarrow> real list \<Rightarrow> real option"

record degradation_profile =
  dp_rate :: real
  dp_exponent :: "real option"
  dp_base_pace :: "real option"
  dp_type :: string
  dp_compound :: string
  dp_confidence :: real

record driver_twin =
  dt_driver_id :: string
  dt_pace_vector :: npfloat
  dt_consistency_index :: real
  dt_degradation_profile :: degradation_profile
  dt_lap_count :: nat
  dt_confidence :: real
  dt_note :: "string option"

definition calculate_pace_vector :: "real list \<Rightarrow> npfloat" where
  "calculate_pace_vector lap_times =
     (case lap_times of
        [] \<Rightarrow> Fin 0.0
      | t # ts \<Rightarrow>
          if length lap_times < 2 then Fin 0.0
          else let best_lap = fold min ts t;
                   avg_lap = np_mean lap_times;
                   pace_vector = np_div (avg_lap - best_lap) best_lap
               in np_clip pace_vector (-0.1) 0.1)"

definition calculate_consistency_index :: "real list \<Rightarrow> real" where
  "calculate_consistency_index lap_times =
     (if lap_times = [] \<or> length lap_times < 2 then 0.7
      else if np_mean lap_times = 0 then 0.7
      else
        let lap_times_array =
              (if length lap_times \<ge> 5 then
                 let Q1 = np_percentile lap_times 25;
                     Q3 = np_percentile lap_times 75;
                     IQR = Q3 - Q1;
                     lower_bound = Q1 - 1.5 * IQR;
                     upper_bound = Q3 + 1.5 * IQR;
                     filtered_times =
                       filter (\<lambda>x. x \<ge> lower_bound \<and> x \<le> upper_bound) lap_times
                 in if length filtered_times > 1 then filtered_times else lap_times
               else lap_times);
            mean_lap = np_mean lap_times_array;
            std_dev = np_std lap_times_array;
            coefficient_of_variation = (if mean_lap > 0 then std_dev / mean_lap else 0.0);
            consistency = 1.0 - coefficient_of_variation
        in clip consistency 0.0 1.0)"

definition compound_multipliers :: "string \<Rightarrow> real" where
  "compound_multipliers tire_compound =
     (if tire_compound = ''SOFT'' then 1.5 else if tire_compound = ''MEDIUM'' then 1.0
      else if tire_compound = ''HARD'' then 0.7 else 1.0)"

text \<open>The model functions of the fit, \<open>pace = base * (1 + rate * lap ^ exponent)\<close>, on the
  lap numbers \<open>1 .. n\<close>, and the coefficient of determination of the exponential fit.\<close>

definition exponential_model :: "real \<Rightarrow> nat \<Rightarrow> real \<Rightarrow> real \<Rightarrow> real" where
  "exponential_model base_pace lap rate exponent =
     base_pace * (1.0 + rate * (real lap powr exponent))"

definition exponential_fit_confidence :: "real \<Rightarrow> real list \<Rightarrow> real \<Rightarrow> real \<Rightarrow> real" where
  "exponential_fit_confidence base_pace lap_times rate exponent =
     (let laps = [1 ..< length lap_times + 1];
          predicted = map (\<lambda>lap. exponential_model base_pace lap rate exponent) laps;
          ss_res = sum_list (map (\<lambda>(t, p). (t - p)\<^sup>2) (zip lap_times predicted));
          ss_tot = sum_list (map (\<lambda>t. (t - np_mean lap_times)\<^sup>2) lap_times);
          r_squared = (if ss_tot > 0 then 1 - (ss_res / ss_tot) else 0.5)
      in max 0.5 (min r_squared 1.0))"

text \<open>The \<open>except\<close> branch: early and late window averages (or first and last lap) over
  \<open>base_pace * len(lap_times)\<close>, a numpy division, then \<open>max(0.0, min(rate, 0.01))\<close>.\<close>

definition fallback_rate :: "real \<Rightarrow> real list \<Rightarrow> npfloat" where
  "fallback_rate base_pace lap_times =
     (let n = length lap_times;
          degradation_rate =
            (if n \<ge> 5 then
               let recent_laps = drop (n - 5) lap_times;
                   early_laps = take 5 lap_times
               in np_div (np_mean recent_laps - np_mean early_laps) (base_pace * real n)
             else np_div (last lap_times - hd lap_times) (base_pace * real n))
      in py_max (Fin 0.0) (py_min degradation_rate (Fin 0.01)))"

definition fin_value :: "npfloat \<Rightarrow> real" where
  "fin_value r = (case r of Fin x \<Rightarrow> x | _ \<Rightarrow> 0)"

text \<open>The state of \<open>degradation_rate\<close>, \<open>exponent\<close>, \<open>fit_type\<close> and \<open>confidence\<close> after the
  \<open>try\<close> statement (lines 272 to 322). The fallback rate is always a finite number
  (lemma \<open>fallback_rate_finite\<close>), which \<open>fin_value\<close> reads.\<close>

definition fit_degradation ::
  "scipy \<Rightarrow> real \<Rightarrow> real list \<Rightarrow> real \<times> real \<times> string \<times> real" where
  "fit_degradation sp base_pace lap_times =
     (let fallback = (fin_value (fallback_rate base_pace lap_times), 1.0, ''linear'', 0.5)
      in if SCIPY_AVAILABLE sp then
           (if length lap_times \<ge> 5 then
              (case curve_fit_exponential sp base_pace lap_times of
                 Some (degradation_rate, exponent) \<Rightarrow>
                   (degradation_rate, exponent, ''exponential'',
                    exponential_fit_confidence base_pace lap_times degradation_rate exponent)
               | None \<Rightarrow> fallback)
            else
              (case curve_fit_linear sp base_pace lap_times of
                 Some degradation_rate \<Rightarrow> (degradation_rate, 1.0, ''linear'', 0.5)
               | None \<Rightarrow> fallback))
         else fallback)"

definition calculate_degradation_profile :: "scipy \<Rightarrow> real list \<Rightarrow> string \<Rightarrow> degradation_profile" where
  "calculate_degradation_profile sp lap_times tire_compound =
     (if length lap_times < 3 then
        \<lparr> dp_rate = 0.002, dp_exponent = Some 1.0,
          dp_base_pace = Some (if lap_times \<noteq> [] then np_mean lap_times else 95.0),
          dp_type = ''linear'', dp_compound = tire_compound, dp_confidence = 0.5 \<rparr>
      else
        let base_pace = np_mean (take (min 3 (length lap_times)) lap_times);
            (degradation_rate, exponent, fit_type, confidence) =
               fit_degradation sp base_pace lap_times;
            degradation_rate = max 0.0 degradation_rate;
            degradation_rate = min degradation_rate 0.01;
            degradation_rate = degradation_rate * compound_multipliers tire_compound;
            confidence = max confidence (min (real (length lap_times) / 20.0) 1.0)
        in \<lparr> dp_rate = degradation_rate, dp_exponent = Some exponent,
             dp_base_pace = Some base_pace, dp_type = fit_type,
             dp_compound = tire_compound, dp_confidence = confidence \<rparr>)"

definition calculate_confidence :: "nat \<Rightarrow> real" where
  "calculate_confidence lap_count =
     (if lap_count < 5 then 0.5 else if lap_count < 10 then 0.7
      else if lap_count < 20 then 0.85 else 0.95)"

definition generate_default_twin :: "string \<Rightarrow> int \<Rightarrow> driver_twin" where
  "generate_default_twin driver_id current_lap =
     \<lparr> dt_driver_id = driver_id,
       dt_pace_vector = Fin 0.0,
       dt_consistency_index = 0.7,
       dt_degradation_profile =
         \<lparr> dp_rate = 0.002, dp_exponent = None, dp_base_pace = None,
           dp_type = ''linear'', dp_compound = ''MEDIUM'', dp_confidence = 0.5 \<rparr>,
       dt_lap_count = 0,
       dt_confidence = 0.5,
       dt_note = Some ''Insufficient data - using defaults'' \<rparr>"

text \<open>
  \<open>generate_driver_twin\<close>. The entries \<open>aggression_score\<close>, \<open>sector_strengths\<close>,
  \<open>fatigue_dropoff\<close> and \<open>timestamp\<close> of the returned dictionary are computed from the
  telemetry, the sector times and the clock only and are not part of the record; the
  arguments they alone read (\<open>sector_times\<close>, \<open>telemetry_data\<close>) are not parameters here.
\<close>

definition generate_driver_twin :: "scipy \<Rightarrow> string \<Rightarrow> real list \<Rightarrow> string \<Rightarrow> int \<Rightarrow> driver_twin" where
  "generate_driver_twin sp driver_id lap_times tire_compound current_lap =
     (if length lap_times < 5 then generate_default_twin driver_id current_lap
      else
        \<lparr> dt_driver_id = driver_id,
          dt_pace_vector = calculate_pace_vector lap_times,
          dt_consistency_index = calculate_consistency_index lap_times,
          dt_degradation_profile = calculate_degradation_profile sp lap_times tire_compound,
          dt_lap_count = length lap_times,
          dt_confidence = calculate_confidence (length lap_times),
          dt_note = None \<rparr>)"

text \<open>An installation without scipy: the guarded import failed, every fit takes the
  fallback.\<close>

definition no_scipy :: scipy where
  "no_scipy = \<lparr> SCIPY_AVAILABLE = False, curve_fit_exponential = (\<lambda>_ _. None),
                 curve_fit_linear = (\<lambda>_ _. None) \<rparr>"

section \<open>degradation.py and models/tire_degradation.py: the two TireDegradationModel classes\<close>

text \<open>
  The repository has two classes named \<open>TireDegradationModel\<close>. Method lookup on an
  instance is dynamic, so a class is a record of what its constructor accepts and of the
  methods it defines (\<open>None\<close>: the class has no such attribute). The methods are given the
  instance attribute \<open>self.compound\<close> where they read it.
\<close>

record tire_model_class =
  init_keywords :: "string list"
  exponential_degradation_method :: "(string \<Rightarrow> int \<Rightarrow> real \<Rightarrow> real) option"
  calculate_degradation_method :: "(int \<Rightarrow> string \<Rightarrow> real \<Rightarrow> real) option"

text \<open>\<open>degradation.TireDegradationModel\<close>: \<open>__init__(self, compound="SOFT", track_temp=25.0)\<close>,
  with \<open>exponential_degradation\<close> (called without a rate override) and no
  \<open>calculate_degradation\<close>.\<close>

definition compound_coefficients :: "string \<Rightarrow> real option" where
  "compound_coefficients compound =
     (if compound = ''SOFT'' then Some 0.08 else if compound = ''MEDIUM'' then Some 0.05
      else if compound = ''HARD'' then Some 0.03 else if compound = ''SUPER_SOFT'' then Some 0.10
      else if compound = ''INTERMEDIATE'' then Some 0.12 else if compound = ''WET'' then Some 0.15
      else None)"

definition exponential_degradation :: "string \<Rightarrow> int \<Rightarrow> real \<Rightarrow> real" where
  "exponential_degradation self_compound lap_number base_time =
     (let degradation_rate = (case compound_coefficients self_compound of
                                Some r \<Rightarrow> r | None \<Rightarrow> 0.05);
          degradation_factor = (1 + degradation_rate) powi lap_number
      in base_time * degradation_factor)"

definition degradation_TireDegradationModel :: tire_model_class where
  "degradation_TireDegradationModel =
     \<lparr> init_keywords = [''compound'', ''track_temp''],
       exponential_degradation_method = Some exponential_degradation,
       calculate_degradation_method = None \<rparr>"



text \<open>Calling the class with keyword arguments: an unexpected keyword is a \<open>TypeError\<close>.\<close>

definition construct :: "tire_model_class \<Rightarrow> string list \<Rightarrow> error + unit" where
  "construct cls keywords =
     (if \<forall>k \<in> set keywords. k \<in> set (init_keywords cls) then Inr () else Inl TypeError)"

section \<open>pit_decision_engine.py: AdvancedPitDecisionEngine\<close>

text \<open>
  The optional dictionaries handed to the engine. A key that may be missing is an
  \<open>option\<close> field; \<open>other_keys\<close> says whether the dictionary has any further key, so that
  the truth value of the dictionary (non-empty) can be read off. The formatted
  \<open>explanation\<close> and \<open>reasoning\<close> strings, the \<open>window\<close> string of the insights and the
  \<open>timestamp\<close> are not modelled.
\<close>

record profile_dict =
  pd_rate :: "real option"
  pd_base_pace :: "real option"

record twin_dict =
  td_pace_vector :: "real option"
  td_consistency_index :: "real option"
  td_degradation_profile :: "profile_dict option"

record optimal_window_dict =
  ow_start :: "int option"
  ow_end :: "int option"

record pit_recommendations_dict =
  pr_optimal_window :: "optimal_window_dict option"
  pr_other_keys :: bool

record undercut_outcomes_dict =
  uo_viable :: "bool option"
  uo_time_gain :: "real option"

record tire_cliff_dict =
  tc_critical :: "bool option"
  tc_lap :: "int option"

record traffic_simulation_dict =
  ts_clear_window :: "bool option"

record race_twin_dict =
  rt_pit_recommendations :: "pit_recommendations_dict option"
  rt_undercut_outcomes :: "undercut_outcomes_dict option"
  rt_tire_cliff_prediction :: "tire_cliff_dict option"
  rt_traffic_simulation :: "traffic_simulation_dict option"
  rt_other_keys :: bool

record opponent_dict =
  op_gap :: "real option"
  op_tire_age :: "int option"
  op_just_pitted :: "bool option"
  op_id :: "string option"
  op_other_keys :: bool

record weather_dict =
  wd_condition :: "string option"
  wd_track_temp :: "real option"
  wd_ambient_temp :: "real option"
  wd_humidity :: "real option"
  wd_rainfall :: "real option"
  wd_other_keys :: bool

definition pit_recommendations_nonempty :: "pit_recommendations_dict \<Rightarrow> bool" where
  "pit_recommendations_nonempty p = (pr_optimal_window p \<noteq> None \<or> pr_other_keys p)"

definition race_twin_nonempty :: "race_twin_dict \<Rightarrow> bool" where
  "race_twin_nonempty r =
     (rt_pit_recommendations r \<noteq> None \<or> rt_undercut_outcomes r \<noteq> None
      \<or> rt_tire_cliff_prediction r \<noteq> None \<or> rt_traffic_simulation r \<noteq> None
      \<or> rt_other_keys r)"

definition opponent_nonempty :: "opponent_dict \<Rightarrow> bool" where
  "opponent_nonempty p =
     (op_gap p \<noteq> None \<or> op_tire_age p \<noteq> None \<or> op_just_pitted p \<noteq> None
      \<or> op_id p \<noteq> None \<or> op_other_keys p)"

definition weather_nonempty :: "weather_dict \<Rightarrow> bool" where
  "weather_nonempty w =
     (wd_condition w \<noteq> None \<or> wd_track_temp w \<noteq> None \<or> wd_ambient_temp w \<noteq> None
      \<or> wd_humidity w \<noteq> None \<or> wd_rainfall w \<noteq> None \<or> wd_other_keys w)"

subsection \<open>Degradation factor\<close>

record predicted_entry =
  pe_lap :: int
  pe_degradation :: real
  pe_pace_loss :: real

record degradation_factor =
  df_weight :: real
  df_score :: real
  df_urgency :: string
  df_current_degradation :: real
  df_degradation_rate :: real
  df_tire_age :: int
  df_predicted_degradation :: "predicted_entry list"
  df_critical_lap :: "int option"

fun find_critical_lap :: "predicted_entry list \<Rightarrow> real \<Rightarrow> int option" where
  "find_critical_lap [] threshold = None"
| "find_critical_lap (pred # rest) threshold =
     (if pe_degradation pred \<ge> threshold then Some (pe_lap pred)
      else find_critical_lap rest threshold)"

definition analyze_degradation_factor ::
  "tire_model_class \<Rightarrow> int \<Rightarrow> string \<Rightarrow> real \<Rightarrow> int \<Rightarrow> int \<Rightarrow> twin_dict option
   \<Rightarrow> error + degradation_factor" where
  "analyze_degradation_factor cls tire_age tire_compound degradation_rate current_lap
       total_laps driver_twin =
     (case construct cls [''compound''] of
        Inl e \<Rightarrow> Inl e
      | Inr _ \<Rightarrow>
        (case calculate_degradation_method cls of
           None \<Rightarrow> Inl AttributeError
         | Some method \<Rightarrow>
             let current_degradation = method tire_age tire_compound 25.0;
                 predicted_degradation =
                   map (\<lambda>lap_offset.
                          let future_age = tire_age + lap_offset;
                              future_degradation = method future_age tire_compound 25.0
                          in \<lparr> pe_lap = current_lap + lap_offset,
                               pe_degradation = future_degradation,
                               pe_pace_loss = future_degradation * 0.5 \<rparr>)
                       [1, 2, 3, 4, 5];
                 critical_threshold = 0.05;
                 warning_threshold = 0.03;
                 (urgency, score) =
                   (if current_degradation \<ge> critical_threshold then (''critical'', 0.9)
                    else if current_degradation \<ge> warning_threshold then (''high'', 0.7)
                    else if \<exists>p \<in> set (take 3 predicted_degradation).
                               pe_degradation p \<ge> critical_threshold
                         then (''medium'', 0.5)
                    else (''low'', 0.2));
                 score =
                   (case driver_twin of
                      None \<Rightarrow> score
                    | Some twin \<Rightarrow>
                        (case td_degradation_profile twin of
                           None \<Rightarrow> score
                         | Some profile \<Rightarrow>
                             if (case pd_rate profile of Some r \<Rightarrow> r | None \<Rightarrow> 0)
                                  > degradation_rate
                             then min 1.0 (score + 0.1) else score))
             in Inr \<lparr> df_weight = 0.35,
                      df_score = score,
                      df_urgency = urgency,
                      df_current_degradation = current_degradation,
                      df_degradation_rate = degradation_rate,
                      df_tire_age = tire_age,
                      df_predicted_degradation = predicted_degradation,
                      df_critical_lap =
                        find_critical_lap predicted_degradation critical_threshold \<rparr>))"

subsection \<open>Traffic factor\<close>

record traffic_window_entry =
  tw_lap :: int
  tw_predicted_density :: real
  tw_clear :: bool

record traffic_factor =
  tf_weight :: real
  tf_score :: real
  tf_traffic_level :: string
  tf_traffic_density :: real
  tf_cars_ahead :: int
  tf_clear_window_now :: bool
  tf_traffic_window :: "traffic_window_entry list"
  tf_best_window_lap :: "int option"

text \<open>\<open>min(xs, key=f)\<close> on a non-empty list, read as head and tail: the first element with
  the least key.\<close>

definition min_by_key :: "('a \<Rightarrow> real) \<Rightarrow> 'a \<Rightarrow> 'a list \<Rightarrow> 'a" where
  "min_by_key f x xs = fold (\<lambda>y best. if f y < f best then y else best) xs x"

definition traffic_window_entry_at :: "real \<Rightarrow> int \<Rightarrow> int \<Rightarrow> int \<Rightarrow> traffic_window_entry" where
  "traffic_window_entry_at traffic_density current_lap total_laps lap_offset =
     (let progress = real_of_int (current_lap + lap_offset) / real_of_int total_laps;
          predicted_density = traffic_density * (1.0 - progress * 0.2)
      in \<lparr> tw_lap = current_lap + lap_offset,
           tw_predicted_density = max 0.0 (min 1.0 predicted_density),
           tw_clear = (predicted_density < 0.4) \<rparr>)"

text \<open>\<open>(current_lap + lap_offset) / total_laps\<close> divides two Python ints: with
  \<open>total_laps = 0\<close> the first pass of the loop raises \<open>ZeroDivisionError\<close>.\<close>

definition analyze_traffic_factor ::
  "int \<Rightarrow> real \<Rightarrow> int \<Rightarrow> int \<Rightarrow> string \<Rightarrow> error + traffic_factor" where
  "analyze_traffic_factor current_position traffic_density current_lap total_laps driver_id =
     (let cars_ahead = max 0 (current_position - 1);
          (traffic_level, clear_window, score) =
            (if traffic_density \<ge> 0.7 then (''heavy'', False, 0.3)
             else if traffic_density \<ge> 0.4 then (''moderate'', False, 0.5)
             else (''light'', True, 0.8))
      in if total_laps = 0 then Inl ZeroDivisionError
         else
           let first_entry = traffic_window_entry_at traffic_density current_lap total_laps 1;
               rest = map (traffic_window_entry_at traffic_density current_lap total_laps)
                        [2, 3, 4, 5];
               traffic_window = first_entry # rest;
               best_window = min_by_key tw_predicted_density first_entry rest
           in Inr \<lparr> tf_weight = 0.25,
                    tf_score = score,
                    tf_traffic_level = traffic_level,
                    tf_traffic_density = traffic_density,
                    tf_cars_ahead = cars_ahead,
                    tf_clear_window_now = clear_window,
                    tf_traffic_window = traffic_window,
                    tf_best_window_lap =
                      (if tw_clear best_window then Some (tw_lap best_window) else None) \<rparr>)"

subsection \<open>Race-twin factor\<close>

record insights =
  in_optimal_window :: "bool option"
  in_laps_to_window :: "int option"
  in_past_window :: "bool option"
  in_undercut_viable :: "bool option"
  in_undercut_gain :: "real option"
  in_tire_cliff_imminent :: "bool option"
  in_cliff_lap :: "int option"
  in_clear_window :: "bool option"

definition empty_insights :: insights where
  "empty_insights =
     \<lparr> in_optimal_window = None, in_laps_to_window = None, in_past_window = None,
       in_undercut_viable = None, in_undercut_gain = None, in_tire_cliff_imminent = None,
       in_cliff_lap = None, in_clear_window = None \<rparr>"

definition insights_nonempty :: "insights \<Rightarrow> bool" where
  "insights_nonempty i = (i \<noteq> empty_insights)"

record race_twin_factor =
  rtf_weight :: real
  rtf_score :: real
  rtf_available :: bool
  rtf_insights :: "insights option"

definition analyze_race_twin_factor ::
  "race_twin_dict option \<Rightarrow> string \<Rightarrow> int \<Rightarrow> int \<Rightarrow> race_twin_factor" where
  "analyze_race_twin_factor race_twin driver_id current_lap total_laps =
     (case (case race_twin of None \<Rightarrow> None
            | Some r \<Rightarrow> if race_twin_nonempty r then Some r else None) of
        None \<Rightarrow>
          \<lparr> rtf_weight = 0.20, rtf_score = 0.5, rtf_available = False, rtf_insights = None \<rparr>
      | Some r \<Rightarrow>
          let insights = empty_insights;
              score = 0.5;
              pit_recommendations =
                (case rt_pit_recommendations r of
                   None \<Rightarrow> None
                 | Some p \<Rightarrow> if pit_recommendations_nonempty p then Some p else None);
              (score, insights) =
                (case pit_recommendations of
                   None \<Rightarrow> (score, insights)
                 | Some p \<Rightarrow>
                     let optimal_window =
                           (case pr_optimal_window p of
                              Some w \<Rightarrow> w | None \<Rightarrow> \<lparr> ow_start = None, ow_end = None \<rparr>);
                         window_start =
                           (case ow_start optimal_window of Some s \<Rightarrow> s | None \<Rightarrow> current_lap);
                         window_end =
                           (case ow_end optimal_window of Some e \<Rightarrow> e
                            | None \<Rightarrow> current_lap + 10)
                     in if window_start \<le> current_lap \<and> current_lap \<le> window_end
                        then (0.8, insights\<lparr>in_optimal_window := Some True\<rparr>)
                        else if current_lap < window_start
                        then (0.4, insights\<lparr>in_optimal_window := Some False,
                                     in_laps_to_window := Some (window_start - current_lap)\<rparr>)
                        else (0.3, insights\<lparr>in_optimal_window := Some False,
                                     in_past_window := Some True\<rparr>));
              undercut_outcomes =
                (case rt_undercut_outcomes r of
                   Some u \<Rightarrow> u | None \<Rightarrow> \<lparr> uo_viable = None, uo_time_gain = None \<rparr>);
              (score, insights) =
                (if (case uo_viable undercut_outcomes of Some v \<Rightarrow> v | None \<Rightarrow> False) then
                   let time_gain =
                         (case uo_time_gain undercut_outcomes of Some g \<Rightarrow> g | None \<Rightarrow> 0.0)
                   in if time_gain > 2.0
                      then (0.9, insights\<lparr>in_undercut_viable := Some True,
                                   in_undercut_gain := Some time_gain\<rparr>)
                      else if time_gain > 1.0
                      then (0.7, insights\<lparr>in_undercut_viable := Some True,
                                   in_undercut_gain := Some time_gain\<rparr>)
                      else (score, insights)
                 else (score, insights));
              tire_cliff =
                (case rt_tire_cliff_prediction r of
                   Some c \<Rightarrow> c | None \<Rightarrow> \<lparr> tc_critical = None, tc_lap = None \<rparr>);
              (score, insights) =
                (if (case tc_critical tire_cliff of Some c \<Rightarrow> c | None \<Rightarrow> False) then
                   let cliff_lap = (case tc_lap tire_cliff of Some l \<Rightarrow> l
                                    | None \<Rightarrow> current_lap + 20);
                       laps_to_cliff = cliff_lap - current_lap
                   in if laps_to_cliff \<le> 3
                      then (max score 0.9, insights\<lparr>in_tire_cliff_imminent := Some True,
                                   in_cliff_lap := Some cliff_lap\<rparr>)
                      else (score, insights)
                 else (score, insights));
              traffic_sim =
                (case rt_traffic_simulation r of
                   Some t \<Rightarrow> t | None \<Rightarrow> \<lparr> ts_clear_window = None \<rparr>);
              (score, insights) =
                (if (case ts_clear_window traffic_sim of Some c \<Rightarrow> c | None \<Rightarrow> False)
                 then (min 1.0 (score + 0.1), insights\<lparr>in_clear_window := Some True\<rparr>)
                 else (score, insights))
          in \<lparr> rtf_weight = 0.20, rtf_score = score, rtf_available = True,
               rtf_insights = Some insights \<rparr>)"

subsection \<open>Opponent factor\<close>

record opponent_factor =
  of_weight :: real
  of_score :: real
  of_available :: bool
  of_opponent_tire_age :: "int option"
  of_tire_age_delta :: "int option"
  of_closest_opponent :: "string option"

definition opponent_gap :: "opponent_dict \<Rightarrow> real" where
  "opponent_gap opponent = \<bar>case op_gap opponent of Some g \<Rightarrow> g | None \<Rightarrow> 0\<bar>"

text \<open>The search loop starts from \<open>min_gap = inf\<close> and no opponent, and replaces the
  candidate on a strictly smaller gap: the first opponent of least absolute gap.\<close>

fun closest_opponent :: "opponent_dict option \<Rightarrow> opponent_dict list \<Rightarrow> opponent_dict option" where
  "closest_opponent best [] = best"
| "closest_opponent None (opponent # rest) = closest_opponent (Some opponent) rest"
| "closest_opponent (Some best) (opponent # rest) =
     (if opponent_gap opponent < opponent_gap best
      then closest_opponent (Some opponent) rest
      else closest_opponent (Some best) rest)"

definition unavailable_opponent_factor :: opponent_factor where
  "unavailable_opponent_factor =
     \<lparr> of_weight = 0.10, of_score = 0.5, of_available = False,
       of_opponent_tire_age = None, of_tire_age_delta = None, of_closest_opponent = None \<rparr>"

definition analyze_opponent_factor ::
  "opponent_dict list option \<Rightarrow> int \<Rightarrow> int \<Rightarrow> string \<Rightarrow> opponent_factor" where
  "analyze_opponent_factor opponent_data current_lap tire_age driver_id =
     (case opponent_data of
        None \<Rightarrow> unavailable_opponent_factor
      | Some opponents \<Rightarrow>
          if opponents = [] then unavailable_opponent_factor
          else
            (case closest_opponent None opponents of
               None \<Rightarrow> unavailable_opponent_factor
             | Some closest \<Rightarrow>
                 if \<not> opponent_nonempty closest then unavailable_opponent_factor
                 else
                   let opponent_tire_age =
                         (case op_tire_age closest of Some a \<Rightarrow> a | None \<Rightarrow> tire_age);
                       tire_age_delta = tire_age - opponent_tire_age;
                       score = 0.5;
                       score = (if tire_age_delta < -5 then 0.3
                                else if tire_age_delta > 5 then 0.8 else score);
                       score = (if (case op_just_pitted closest of Some j \<Rightarrow> j | None \<Rightarrow> False)
                                then 0.7 else score)
                   in \<lparr> of_weight = 0.10, of_score = score, of_available = True,
                        of_opponent_tire_age = Some opponent_tire_age,
                        of_tire_age_delta = Some tire_age_delta,
                        of_closest_opponent =
                          Some (case op_id closest of Some i \<Rightarrow> i | None \<Rightarrow> ''unknown'') \<rparr>))"

subsection \<open>Weather factor\<close>

text \<open>\<open>str.lower\<close> on ASCII letters and the substring test \<open>needle in haystack\<close>.\<close>

definition char_lower :: "char \<Rightarrow> char" where
  "char_lower c =
     (if (65::nat) \<le> of_char c \<and> of_char c \<le> (90::nat)
      then char_of (of_char c + (32::nat)) else c)"

definition py_lower :: "string \<Rightarrow> string" where
  "py_lower s = map char_lower s"

fun starts_with :: "string \<Rightarrow> string \<Rightarrow> bool" where
  "starts_with [] haystack = True"
| "starts_with (n # needle) [] = False"
| "starts_with (n # needle) (h # haystack) = (n = h \<and> starts_with needle haystack)"

fun contains :: "string \<Rightarrow> string \<Rightarrow> bool" where
  "contains needle [] = (needle = [])"
| "contains needle (h # haystack) =
     (starts_with needle (h # haystack) \<or> contains needle haystack)"

record weather_factor =
  wf_weight :: real
  wf_score :: real
  wf_available :: bool
  wf_condition :: "string option"
  wf_track_temp :: "real option"

definition analyze_weather_factor :: "weather_dict option \<Rightarrow> string \<Rightarrow> weather_factor" where
  "analyze_weather_factor weather_data tire_compound =
     (case (case weather_data of None \<Rightarrow> None
            | Some w \<Rightarrow> if weather_nonempty w then Some w else None) of
        None \<Rightarrow>
          \<lparr> wf_weight = 0.10, wf_score = 0.5, wf_available = False,
            wf_condition = None, wf_track_temp = None \<rparr>
      | Some w \<Rightarrow>
          let score = 0.5;
              condition = py_lower (case wd_condition w of Some c \<Rightarrow> c | None \<Rightarrow> ''dry'');
              score = (if contains ''rain'' condition \<or> contains ''wet'' condition then 0.4
                       else if condition = ''dry'' then 0.5 else score);
              track_temp = (case wd_track_temp w of Some t \<Rightarrow> t | None \<Rightarrow> 25.0);
              score = (if track_temp > 35 then min 1.0 (score + 0.2)
                       else if track_temp < 15 then max 0.0 (score - 0.1) else score)
          in \<lparr> wf_weight = 0.10, wf_score = score, wf_available = True,
               wf_condition = Some condition, wf_track_temp = Some track_temp \<rparr>)"

subsection \<open>Confidence, decision, result\<close>

definition calculate_confidence_score ::
  "degradation_factor \<Rightarrow> traffic_factor \<Rightarrow> race_twin_factor \<Rightarrow> opponent_factor
   \<Rightarrow> weather_factor \<Rightarrow> real" where
  "calculate_confidence_score degradation_factor traffic_factor race_twin_factor
       opponent_factor weather_factor =
     (let total_score =
            df_score degradation_factor * df_weight degradation_factor
            + tf_score traffic_factor * tf_weight traffic_factor
            + rtf_score race_twin_factor * rtf_weight race_twin_factor
            + of_score opponent_factor * of_weight opponent_factor
            + wf_score weather_factor * wf_weight weather_factor;
          available_factors =
            sum_list (map (\<lambda>b. if b then (1::int) else 0)
              [True, True, rtf_available race_twin_factor, of_available opponent_factor,
               wf_available weather_factor]);
          availability_multiplier = 0.7 + (real_of_int available_factors / 5.0) * 0.3;
          confidence = total_score * availability_multiplier
      in max 0.0 (min 1.0 confidence))"

record decision_result =
  dr_decision :: string
  dr_recommended_lap :: "int option"

text \<open>\<open>_make_decision\<close>. A lap number is a Python int, false when it is 0.\<close>

definition make_decision ::
  "degradation_factor \<Rightarrow> traffic_factor \<Rightarrow> race_twin_factor \<Rightarrow> opponent_factor
   \<Rightarrow> weather_factor \<Rightarrow> real \<Rightarrow> int \<Rightarrow> int \<Rightarrow> int \<Rightarrow> decision_result" where
  "make_decision degradation_factor traffic_factor race_twin_factor opponent_factor
       weather_factor confidence_score current_lap total_laps tire_age =
     (let pit_now_threshold = 0.75;
          pit_later_threshold = 0.55
      in if df_urgency degradation_factor = ''critical'' then
           \<lparr> dr_decision = ''PIT_NOW'', dr_recommended_lap = Some current_lap \<rparr>
         else if confidence_score \<ge> pit_now_threshold then
           \<lparr> dr_decision = ''PIT_NOW'', dr_recommended_lap = Some current_lap \<rparr>
         else if confidence_score \<ge> pit_later_threshold then
           (case tf_best_window_lap traffic_factor of
              Some best_traffic_lap \<Rightarrow>
                if best_traffic_lap \<noteq> 0 \<and> best_traffic_lap \<le> current_lap + 5
                then \<lparr> dr_decision = ''PIT_LATER'', dr_recommended_lap = Some best_traffic_lap \<rparr>
                else \<lparr> dr_decision = ''PIT_LATER'', dr_recommended_lap = Some (current_lap + 2) \<rparr>
            | None \<Rightarrow>
                \<lparr> dr_decision = ''PIT_LATER'', dr_recommended_lap = Some (current_lap + 2) \<rparr>)
         else \<lparr> dr_decision = ''EXTEND_STINT'', dr_recommended_lap = None \<rparr>)"

definition confidence_level :: "real \<Rightarrow> string" where
  "confidence_level score =
     (if score \<ge> 0.8 then ''high'' else if score \<ge> 0.6 then ''medium-high''
      else if score \<ge> 0.4 then ''medium'' else if score \<ge> 0.2 then ''low-medium''
      else ''low'')"

record breakdown_entry =
  be_score :: real
  be_weight :: real
  be_weighted_contribution :: real
  be_available :: "bool option"

record factor_breakdown =
  fb_degradation :: breakdown_entry
  fb_degradation_urgency :: string
  fb_current_degradation :: real
  fb_traffic :: breakdown_entry
  fb_traffic_level :: string
  fb_clear_window :: bool
  fb_best_window_lap :: "int option"
  fb_race_twin :: breakdown_entry
  fb_opponent :: breakdown_entry
  fb_weather :: breakdown_entry
  fb_overall_confidence :: real
  fb_confidence_level :: string

definition generate_factor_breakdown ::
  "degradation_factor \<Rightarrow> traffic_factor \<Rightarrow> race_twin_factor \<Rightarrow> opponent_factor
   \<Rightarrow> weather_factor \<Rightarrow> real \<Rightarrow> factor_breakdown" where
  "generate_factor_breakdown degradation_factor traffic_factor race_twin_factor
       opponent_factor weather_factor confidence_score =
     \<lparr> fb_degradation =
         \<lparr> be_score = df_score degradation_factor, be_weight = df_weight degradation_factor,
           be_weighted_contribution = df_score degradation_factor * df_weight degradation_factor,
           be_available = None \<rparr>,
       fb_degradation_urgency = df_urgency degradation_factor,
       fb_current_degradation = df_current_degradation degradation_factor,
       fb_traffic =
         \<lparr> be_score = tf_score traffic_factor, be_weight = tf_weight traffic_factor,
           be_weighted_contribution = tf_score traffic_factor * tf_weight traffic_factor,
           be_available = None \<rparr>,
       fb_traffic_level = tf_traffic_level traffic_factor,
       fb_clear_window = tf_clear_window_now traffic_factor,
       fb_best_window_lap = tf_best_window_lap traffic_factor,
       fb_race_twin =
         \<lparr> be_score = rtf_score race_twin_factor, be_weight = rtf_weight race_twin_factor,
           be_weighted_contribution = rtf_score race_twin_factor * rtf_weight race_twin_factor,
           be_available = Some (rtf_available race_twin_factor) \<rparr>,
       fb_opponent =
         \<lparr> be_score = of_score opponent_factor, be_weight = of_weight opponent_factor,
           be_weighted_contribution = of_score opponent_factor * of_weight opponent_factor,
           be_available = Some (of_available opponent_factor) \<rparr>,
       fb_weather =
         \<lparr> be_score = wf_score weather_factor, be_weight = wf_weight weather_factor,
           be_weighted_contribution = wf_score weather_factor * wf_weight weather_factor,
           be_available = Some (wf_available weather_factor) \<rparr>,
       fb_overall_confidence = confidence_score,
       fb_confidence_level = confidence_level confidence_score \<rparr>"

record pit_decision =
  pdc_driver_id :: string
  pdc_current_lap :: int
  pdc_decision :: string
  pdc_confidence :: real
  pdc_confidence_level :: string
  pdc_factor_breakdown :: factor_breakdown
  pdc_recommended_lap :: "int option"
  pdc_race_twin_integration :: insights

text \<open>\<open>make_pit_decision\<close>, for the class to which the module binds the name
  \<open>TireDegradationModel\<close>. The factors are analysed in the order of the source, so the
  first exception raised is the one returned.\<close>

definition make_pit_decision_with ::
  "tire_model_class \<Rightarrow> string \<Rightarrow> int \<Rightarrow> int \<Rightarrow> int \<Rightarrow> string \<Rightarrow> int \<Rightarrow> real \<Rightarrow> real
   \<Rightarrow> race_twin_dict option \<Rightarrow> twin_dict option \<Rightarrow> opponent_dict list option
   \<Rightarrow> weather_dict option \<Rightarrow> error + pit_decision" where
  "make_pit_decision_with cls driver_id current_lap total_laps tire_age tire_compound
       current_position degradation_rate traffic_density race_twin driver_twin
       opponent_data weather_data =
     (case analyze_degradation_factor cls tire_age tire_compound degradation_rate
             current_lap total_laps driver_twin of
        Inl e \<Rightarrow> Inl e
      | Inr degradation_factor \<Rightarrow>
        (case analyze_traffic_factor current_position traffic_density current_lap
                total_laps driver_id of
           Inl e \<Rightarrow> Inl e
         | Inr traffic_factor \<Rightarrow>
             let race_twin_factor =
                   analyze_race_twin_factor race_twin driver_id current_lap total_laps;
                 opponent_factor =
                   analyze_opponent_factor opponent_data current_lap tire_age driver_id;
                 weather_factor = analyze_weather_factor weather_data tire_compound;
                 confidence_score =
                   calculate_confidence_score degradation_factor traffic_factor
                     race_twin_factor opponent_factor weather_factor;
                 decision_result =
                   make_decision degradation_factor traffic_factor race_twin_factor
                     opponent_factor weather_factor confidence_score current_lap total_laps
                     tire_age;
                 factor_breakdown =
                   generate_factor_breakdown degradation_factor traffic_factor
                     race_twin_factor opponent_factor weather_factor confidence_score
             in Inr \<lparr> pdc_driver_id = driver_id,
                      pdc_current_lap = current_lap,
                      pdc_decision = dr_decision decision_result,
                      pdc_confidence = confidence_score,
                      pdc_confidence_level = confidence_level confidence_score,
                      pdc_factor_breakdown = factor_breakdown,
                      pdc_recommended_lap = dr_recommended_lap decision_result,
                      pdc_race_twin_integration =
                        (case rtf_insights race_twin_factor of
                           Some i \<Rightarrow> i | None \<Rightarrow> empty_insights) \<rparr>))"

text \<open>\<open>pit_decision_engine.py\<close> imports the class from \<open>.degradation\<close>.\<close>

definition make_pit_decision ::
  "string \<Rightarrow> int \<Rightarrow> int \<Rightarrow> int \<Rightarrow> string \<Rightarrow> int \<Rightarrow> real \<Rightarrow> real
   \<Rightarrow> race_twin_dict option \<Rightarrow> twin_dict option \<Rightarrow> opponent_dict list option
   \<Rightarrow> weather_dict option \<Rightarrow> error + pit_decision" where
  "make_pit_decision = make_pit_decision_with degradation_TireDegradationModel"

section \<open>traffic.py and weather.py: the leaf models used by the simulator\<close>

text \<open>\<open>calculate_traffic_density\<close> reads the \<open>sector\<close> and \<open>position\<close> entries of each driver
  dictionary (\<open>d.get('sector')\<close>, \<open>d.get('position', 0)\<close>); the \<open>id\<close> entry is not read.\<close>

record traffic_driver_dict =
  tdd_position :: "int option"
  tdd_sector :: "string option"

definition calculate_traffic_density :: "traffic_driver_dict list \<Rightarrow> string \<Rightarrow> real" where
  "calculate_traffic_density drivers sector =
     (let drivers_in_sector = filter (\<lambda>d. tdd_sector d = Some sector) drivers;
          density = real (length drivers_in_sector) / real (max (length drivers) 1);
          density =
            (if length drivers_in_sector > 1 then
               let positions = map (\<lambda>d. case tdd_position d of Some p \<Rightarrow> p | None \<Rightarrow> 0)
                                 drivers_in_sector;
                   position_spread = fold max (tl positions) (hd positions)
                                     - fold min (tl positions) (hd positions);
                   proximity_factor = 1.0 / (1 + real_of_int position_spread / 5)
               in density * (1 + proximity_factor)
             else density)
      in min 1.0 density)"

definition estimate_time_lost :: "real \<Rightarrow> string \<Rightarrow> real" where
  "estimate_time_lost traffic_density sector =
     (let base_loss_per_sector =
            (if sector = ''S1'' then 0.3 else if sector = ''S2'' then 0.5
             else if sector = ''S3'' then 0.4 else 0.4)
      in base_loss_per_sector * (traffic_density powr 1.5))"

definition determine_condition :: "real \<Rightarrow> real \<Rightarrow> real \<Rightarrow> real \<Rightarrow> string" where
  "determine_condition track_temp ambient_temp humidity rainfall =
     (if rainfall > 0.5 then ''wet''
      else if rainfall > 0.1 \<or> humidity > 80 then ''damp''
      else if track_temp < 15 \<or> track_temp > 50 then ''mixed''
      else ''dry'')"

definition calculate_pace_modifier :: "real \<Rightarrow> real \<Rightarrow> real \<Rightarrow> real \<Rightarrow> real" where
  "calculate_pace_modifier track_temp ambient_temp humidity rainfall =
     (let condition = determine_condition track_temp ambient_temp humidity rainfall;
          base_modifier =
            (if condition = ''dry'' then 1.0 else if condition = ''wet'' then 1.15
             else if condition = ''damp'' then 1.08 else if condition = ''mixed'' then 1.12
             else 1.0);
          optimal_temp = 27.5;
          temp_delta = \<bar>track_temp - optimal_temp\<bar>;
          temp_modifier = 1.0 + (temp_delta * 0.002)
      in base_modifier * temp_modifier)"

section \<open>race_twin.py: one Monte Carlo iteration\<close>

text \<open>
  The pseudo-random source is an explicit stream of numbers, threaded through the
  iteration: each draw takes the head. \<open>np.random.random()\<close> is the head,
  \<open>np.random.uniform(a, b)\<close> scales it, \<open>np.random.normal(0, scale)\<close> multiplies a standard
  draw by the scale and raises \<open>ValueError\<close> on a negative scale. The results below hold
  for every stream.
\<close>

type_synonym rng = "nat \<Rightarrow> real"

definition draw :: "rng \<Rightarrow> real \<times> rng" where
  "draw g = (g 0, \<lambda>n. g (Suc n))"

definition random_random :: "rng \<Rightarrow> real \<times> rng" where
  "random_random g = draw g"

definition random_uniform :: "real \<Rightarrow> real \<Rightarrow> rng \<Rightarrow> real \<times> rng" where
  "random_uniform low high g = (let (u, g') = draw g in (low + (high - low) * u, g'))"

definition random_normal :: "real \<Rightarrow> rng \<Rightarrow> error + (real \<times> rng)" where
  "random_normal scale g =
     (if scale < 0 then Inl ValueError
      else let (z, g') = draw g in Inr (scale * z, g'))"

record driver_dict =
  dr_id :: string
  dr_position :: "int option"
  dr_tire_age :: "int option"
  dr_tire_compound :: "string option"

record strategy_dict =
  st_driver_id :: "string option"
  st_planned_pits :: "int list option"

record pit_stop =
  ps_lap :: int
  ps_pit_time :: real
  ps_new_compound :: string
  ps_old_compound :: string
  ps_rejoin_position :: int
  ps_positions_lost :: int
  ps_time_lost :: real
  ps_traffic_impact :: traffic_impact

record race_state =
  rs_driver_id :: string
  rs_position :: int
  rs_lap_times :: "real list"
  rs_pit_stops :: "pit_stop list"
  rs_tire_age :: int
  rs_tire_compound :: string
  rs_total_time :: real
  rs_twin :: "twin_dict option"

text \<open>A Python dictionary keeps its keys in insertion order; storing under a key that is
  present replaces the value where the key stands.\<close>

type_synonym race_dict = "(string \<times> race_state) list"

fun dict_set :: "race_dict \<Rightarrow> string \<Rightarrow> race_state \<Rightarrow> race_dict" where
  "dict_set [] k v = [(k, v)]"
| "dict_set ((k', v') # rest) k v =
     (if k' = k then (k, v) # rest else (k', v') # dict_set rest k v)"

definition dict_update :: "race_dict \<Rightarrow> string \<Rightarrow> (race_state \<Rightarrow> race_state) \<Rightarrow> race_dict" where
  "dict_update d k f = map (\<lambda>(k', v). if k' = k then (k', f v) else (k', v)) d"

definition dict_get :: "race_dict \<Rightarrow> string \<Rightarrow> error + race_state" where
  "dict_get d k = (case map_of d k of Some v \<Rightarrow> Inr v | None \<Rightarrow> Inl KeyError)"

definition initial_race_state ::
  "driver_dict list \<Rightarrow> (string \<Rightarrow> twin_dict option) \<Rightarrow> race_dict" where
  "initial_race_state drivers driver_twins =
     fold (\<lambda>driver d.
             dict_set d (dr_id driver)
               \<lparr> rs_driver_id = dr_id driver,
                 rs_position = (case dr_position driver of Some p \<Rightarrow> p | None \<Rightarrow> 0),
                 rs_lap_times = [],
                 rs_pit_stops = [],
                 rs_tire_age = (case dr_tire_age driver of Some a \<Rightarrow> a | None \<Rightarrow> 0),
                 rs_tire_compound =
                   (case dr_tire_compound driver of Some c \<Rightarrow> c | None \<Rightarrow> ''MEDIUM''),
                 rs_total_time = 0.0,
                 rs_twin = driver_twins (dr_id driver) \<rparr>)
          drivers []"

definition sector_of_lap :: "int \<Rightarrow> string" where
  "sector_of_lap lap =
     (let i = (lap - 1) mod 3
      in if i = 0 then ''S1'' else if i = 1 then ''S2'' else ''S3'')"

definition calculate_traffic_penalty ::
  "string \<Rightarrow> int \<Rightarrow> race_dict \<Rightarrow> string \<Rightarrow> rng \<Rightarrow> real \<times> rng" where
  "calculate_traffic_penalty driver_id position drivers sector g =
     (let cars_ahead = position - 1
      in if cars_ahead = 0 then (0.0, g)
         else
           let driver_list =
                 map (\<lambda>(did, s). \<lparr> tdd_position = Some (rs_position s),
                                     tdd_sector = Some sector \<rparr>) drivers;
               traffic_density = calculate_traffic_density driver_list sector;
               time_lost = estimate_time_lost traffic_density sector;
               position_penalty = real_of_int cars_ahead * 0.05;
               total_penalty = time_lost + position_penalty;
               (u, g') = random_uniform (-0.02) 0.08 g;
               total_penalty = total_penalty + u
           in (max total_penalty 0.0, g'))"

text \<open>\<open>_calculate_lap_time\<close>. The state always has the key \<open>twin\<close>, so
  \<open>state.get('twin', {})\<close> is the stored value, \<open>None\<close> for a driver without a twin, on
  which \<open>.get\<close> raises \<open>AttributeError\<close>.\<close>

definition calculate_lap_time ::
  "tire_model_class \<Rightarrow> string \<Rightarrow> race_state \<Rightarrow> int \<Rightarrow> weather_dict option \<Rightarrow> race_dict
   \<Rightarrow> rng \<Rightarrow> error + (real \<times> rng)" where
  "calculate_lap_time cls driver_id state lap weather_data drivers g =
     (case rs_twin state of
        None \<Rightarrow> Inl AttributeError
      | Some twin \<Rightarrow>
          let base_pace = (case td_pace_vector twin of Some p \<Rightarrow> p | None \<Rightarrow> 0.0);
              base_lap_time = 95.0;
              adjusted_time = base_lap_time * (1.0 + base_pace);
              tire_age = rs_tire_age state;
              tire_compound = rs_tire_compound state
          in (case construct cls [''compound'', ''track_temp''] of
                Inl e \<Rightarrow> Inl e
              | Inr _ \<Rightarrow>
                  let base_pace =
                        (case td_degradation_profile twin of
                           None \<Rightarrow> adjusted_time
                         | Some profile \<Rightarrow>
                             (case pd_base_pace profile of
                                Some b \<Rightarrow> b | None \<Rightarrow> adjusted_time))
                  in (case exponential_degradation_method cls of
                        None \<Rightarrow> Inl AttributeError
                      | Some method \<Rightarrow>
                          let degraded_time = method tire_compound tire_age base_pace;
                              adjusted_time = degraded_time;
                              adjusted_time =
                                (case weather_data of
                                   None \<Rightarrow> adjusted_time
                                 | Some w \<Rightarrow>
                                     if weather_nonempty w then
                                       adjusted_time * calculate_pace_modifier
                                         (case wd_track_temp w of Some t \<Rightarrow> t | None \<Rightarrow> 25)
                                         (case wd_ambient_temp w of Some t \<Rightarrow> t | None \<Rightarrow> 25)
                                         (case wd_humidity w of Some h \<Rightarrow> h | None \<Rightarrow> 50)
                                         (case wd_rainfall w of Some r \<Rightarrow> r | None \<Rightarrow> 0)
                                     else adjusted_time);
                              sector = sector_of_lap lap;
                              (traffic_penalty, g1) =
                                calculate_traffic_penalty driver_id (rs_position state)
                                  drivers sector g;
                              adjusted_time = adjusted_time + traffic_penalty;
                              consistency =
                                (case td_consistency_index twin of
                                   Some c \<Rightarrow> c | None \<Rightarrow> 0.8);
                              variance = (1.0 - consistency) * 0.5
                          in (case random_normal variance g1 of
                                Inl e \<Rightarrow> Inl e
                              | Inr (random_factor, g2) \<Rightarrow>
                                  Inr (max (adjusted_time + random_factor) 90.0, g2)))))"

text \<open>\<open>_should_pit\<close>: the random draw is made only when the tyre is older than 25 laps
  (\<open>and\<close> evaluates its right operand only then).\<close>

fun planned_pit :: "strategy_dict list \<Rightarrow> string \<Rightarrow> int \<Rightarrow> bool" where
  "planned_pit [] driver_id lap = False"
| "planned_pit (strategy # rest) driver_id lap =
     (if st_driver_id strategy = Some driver_id
         \<and> lap \<in> set (case st_planned_pits strategy of Some ps \<Rightarrow> ps | None \<Rightarrow> [])
      then True else planned_pit rest driver_id lap)"

definition should_pit ::
  "string \<Rightarrow> race_state \<Rightarrow> int \<Rightarrow> int \<Rightarrow> strategy_dict list option \<Rightarrow> rng
   \<Rightarrow> error + (bool \<times> rng)" where
  "should_pit driver_id state lap total_laps pit_strategy_options g =
     (if (case pit_strategy_options of None \<Rightarrow> False
          | Some strategies \<Rightarrow> planned_pit strategies driver_id lap)
      then Inr (True, g)
      else
        (case rs_twin state of
           None \<Rightarrow> Inl AttributeError
         | Some twin \<Rightarrow>
             let tire_age = rs_tire_age state;
                 degradation_rate =
                   (case td_degradation_profile twin of
                      None \<Rightarrow> 0.002
                    | Some profile \<Rightarrow> (case pd_rate profile of Some r \<Rightarrow> r | None \<Rightarrow> 0.002));
                 critical_age = (if degradation_rate < 0.003 then 20 else 15)
             in if tire_age \<ge> critical_age \<and> total_laps - lap \<ge> 10 then Inr (True, g)
                else if tire_age > 25 then
                  (let (u, g') = random_random g in Inr (u < 0.1, g'))
                else Inr (False, g)))"

definition compound_index :: "string \<Rightarrow> nat" where
  "compound_index compound =
     (if compound = ''SOFT'' then 0 else if compound = ''MEDIUM'' then 1
      else if compound = ''HARD'' then 2 else 1)"

definition compound_at :: "nat \<Rightarrow> string" where
  "compound_at i = (if i = 0 then ''SOFT'' else if i = 1 then ''MEDIUM'' else ''HARD'')"

definition simulate_pit_stop ::
  "race_state \<Rightarrow> int \<Rightarrow> race_dict \<Rightarrow> int \<Rightarrow> rng \<Rightarrow> pit_stop \<times> rng" where
  "simulate_pit_stop state lap drivers total_cars g =
     (let base_pit_time = 22.0;
          (pit_time_variance, g1) = random_uniform (-2) 2 g;
          total_pit_time = base_pit_time + pit_time_variance;
          current_compound = rs_tire_compound state;
          current_idx = compound_index current_compound;
          (u, g2) = random_random g1;
          new_idx = (if u < 0.7 then min (current_idx + 1) 2 else current_idx);
          new_compound = compound_at new_idx;
          current_position = rs_position state;
          average_lap_time =
            np_mean (map (\<lambda>(did, s). if rs_lap_times s \<noteq> [] then last (rs_lap_times s)
                                       else 95.0) drivers);
          driver_list =
            map (\<lambda>(did, s). \<lparr> tdd_position = Some (rs_position s),
                                tdd_sector = Some ''S2'' \<rparr>) drivers;
          traffic_density = calculate_traffic_density driver_list ''S2'';
          rejoin_result =
            simulate_pit_rejoin (rs_driver_id state) current_position lap total_pit_time
              average_lap_time traffic_density total_cars ''S2''
      in (\<lparr> ps_lap = lap,
            ps_pit_time = total_pit_time,
            ps_new_compound = new_compound,
            ps_old_compound = current_compound,
            ps_rejoin_position = rr_rejoin_position rejoin_result,
            ps_positions_lost = rr_positions_lost rejoin_result,
            ps_time_lost = rr_time_lost rejoin_result,
            ps_traffic_impact = rr_traffic_impact rejoin_result \<rparr>, g2))"

text \<open>\<open>_simulate_overtakes\<close>: the driver ahead is the first state in dictionary order
  whose position is one less; on a successful draw the two positions are swapped.\<close>

definition simulate_overtakes ::
  "string \<Rightarrow> race_state \<Rightarrow> race_dict \<Rightarrow> int \<Rightarrow> rng \<Rightarrow> error + (race_dict \<times> rng)" where
  "simulate_overtakes driver_id state all_states lap g =
     (let current_pos = rs_position state
      in if current_pos = 1 then Inr (all_states, g)
         else
           (case find (\<lambda>(did, s). rs_position s = current_pos - 1) all_states of
              None \<Rightarrow> Inr (all_states, g)
            | Some (ahead_id, ahead_state) \<Rightarrow>
                (case rs_twin state of
                   None \<Rightarrow> Inl AttributeError
                 | Some twin \<Rightarrow>
                     (case rs_twin ahead_state of
                        None \<Rightarrow> Inl AttributeError
                      | Some ahead_twin \<Rightarrow>
                          let base_speed = 150.0;
                              attacker_speed = base_speed *
                                (1.0 - (case td_pace_vector twin of
                                          Some p \<Rightarrow> p | None \<Rightarrow> 0.0) * 2);
                              defender_speed = base_speed *
                                (1.0 - (case td_pace_vector ahead_twin of
                                          Some p \<Rightarrow> p | None \<Rightarrow> 0.0) * 2);
                              sector = sector_of_lap lap;
                              overtake_prob =
                                calculate_overtake_probability attacker_speed defender_speed
                                  current_pos (current_pos - 1) (rs_tire_age state)
                                  (rs_tire_age ahead_state) sector;
                              (u, g') = random_random g
                          in if u < overtake_prob then
                               Inr (dict_update
                                      (dict_update all_states driver_id
                                         (\<lambda>s. s\<lparr>rs_position := rs_position ahead_state\<rparr>))
                                      ahead_id (\<lambda>s. s\<lparr>rs_position := current_pos\<rparr>), g')
                             else Inr (all_states, g')))))"

text \<open>A loop whose body may raise stops at the first exception.\<close>

fun fold_err :: "('a \<Rightarrow> 's \<Rightarrow> error + 's) \<Rightarrow> 'a list \<Rightarrow> 's \<Rightarrow> error + 's" where
  "fold_err f [] s = Inr s"
| "fold_err f (x # xs) s =
     (case f x s of Inl e \<Rightarrow> Inl e | Inr s' \<Rightarrow> fold_err f xs s')"

text \<open>
  The body of the inner loop of \<open>_simulate_single_race\<close> for one driver: lap time, the
  call of \<open>self.degradation_model.calculate_degradation\<close> (whose value the source does
  not use), pit stop, overtake. \<open>state\<close> is the dictionary entry itself, so each update is
  made in the dictionary. \<open>self.degradation_model\<close> was built in \<open>__init__\<close> by a call
  without arguments, which every class accepts.
\<close>

definition after_lap_time :: "real \<Rightarrow> race_state \<Rightarrow> race_state" where
  "after_lap_time lap_time s =
     s\<lparr> rs_lap_times := rs_lap_times s @ [lap_time],
        rs_total_time := rs_total_time s + lap_time,
        rs_tire_age := rs_tire_age s + 1 \<rparr>"

definition after_pit_stop :: "pit_stop \<Rightarrow> race_state \<Rightarrow> race_state" where
  "after_pit_stop pit_result s =
     s\<lparr> rs_pit_stops := rs_pit_stops s @ [pit_result],
        rs_total_time := rs_total_time s + ps_pit_time pit_result,
        rs_tire_age := 0,
        rs_tire_compound := ps_new_compound pit_result,
        rs_position := ps_rejoin_position pit_result \<rparr>"

definition driver_step ::
  "tire_model_class \<Rightarrow> int \<Rightarrow> int \<Rightarrow> int \<Rightarrow> weather_dict option \<Rightarrow> strategy_dict list option
   \<Rightarrow> string \<Rightarrow> race_dict \<times> rng \<Rightarrow> error + (race_dict \<times> rng)" where
  "driver_step cls total_cars lap total_laps weather_data pit_strategy_options driver_id dg =
     (let (d, g) = dg
      in case dict_get d driver_id of
           Inl e \<Rightarrow> Inl e
         | Inr state \<Rightarrow>
           (case calculate_lap_time cls driver_id state lap weather_data d g of
              Inl e \<Rightarrow> Inl e
            | Inr (lap_time, g1) \<Rightarrow>
                let d1 = dict_update d driver_id (after_lap_time lap_time);
                    state1 = after_lap_time lap_time state
                in (case calculate_degradation_method cls of
                      None \<Rightarrow> Inl AttributeError
                    | Some method \<Rightarrow>
                        (case should_pit driver_id state1 lap total_laps
                                pit_strategy_options g1 of
                           Inl e \<Rightarrow> Inl e
                         | Inr (pit, g2) \<Rightarrow>
                             let (d2, state2, g3) =
                                   (if pit then
                                      let (pit_result, g') =
                                            simulate_pit_stop state1 lap d1 total_cars g2
                                      in (dict_update d1 driver_id (after_pit_stop pit_result),
                                          after_pit_stop pit_result state1, g')
                                    else (d1, state1, g2))
                             in simulate_overtakes driver_id state2 d2 lap g3))))"

text \<open>Re-ranking after a lap: \<open>sorted\<close> is stable, positions are numbered from 1.\<close>

definition rerank :: "race_dict \<Rightarrow> race_dict" where
  "rerank d =
     (let sorted_drivers = sort_key (\<lambda>(did, s). rs_total_time s) d
      in fold (\<lambda>(new_pos, (did, s)) d'. dict_update d' did (\<lambda>s'. s'\<lparr>rs_position := new_pos\<rparr>))
           (zip (map int [1 ..< Suc (length sorted_drivers)]) sorted_drivers) d)"

definition simulate_lap ::
  "tire_model_class \<Rightarrow> int \<Rightarrow> int \<Rightarrow> weather_dict option \<Rightarrow> strategy_dict list option
   \<Rightarrow> int \<Rightarrow> race_dict \<times> rng \<Rightarrow> error + (race_dict \<times> rng)" where
  "simulate_lap cls total_cars total_laps weather_data pit_strategy_options lap dg =
     (case fold_err (driver_step cls total_cars lap total_laps weather_data
                       pit_strategy_options) (map fst (fst dg)) dg of
        Inl e \<Rightarrow> Inl e
      | Inr (d, g) \<Rightarrow> Inr (rerank d, g))"

record simulation_result =
  sr_finishing_order :: "string list"
  sr_pit_stops :: "(string \<times> pit_stop list) list"
  sr_total_times :: "(string \<times> real) list"

definition simulate_single_race_with ::
  "tire_model_class \<Rightarrow> driver_dict list \<Rightarrow> (string \<Rightarrow> twin_dict option) \<Rightarrow> int \<Rightarrow> int
   \<Rightarrow> weather_dict option \<Rightarrow> strategy_dict list option \<Rightarrow> rng
   \<Rightarrow> error + (simulation_result \<times> rng)" where
  "simulate_single_race_with cls drivers driver_twins total_laps current_lap weather_data
       pit_strategy_options g =
     (let race_state = initial_race_state drivers driver_twins
      in case fold_err (simulate_lap cls (int (length drivers)) total_laps weather_data
                          pit_strategy_options)
                [current_lap .. total_laps] (race_state, g) of
           Inl e \<Rightarrow> Inl e
         | Inr (race_state, g') \<Rightarrow>
             let final_positions =
                   sort_key snd (map (\<lambda>(driver_id, state). (driver_id, rs_total_time state))
                                   race_state)
             in Inr (\<lparr> sr_finishing_order = map fst final_positions,
                       sr_pit_stops =
                         map (\<lambda>(driver_id, state). (driver_id, rs_pit_stops state)) race_state,
                       sr_total_times =
                         map (\<lambda>(driver_id, state). (driver_id, rs_total_time state))
                           race_state \<rparr>, g'))"

text \<open>\<open>race_twin.py\<close> imports the class from \<open>.degradation\<close>.\<close>

definition simulate_single_race ::
  "driver_dict list \<Rightarrow> (string \<Rightarrow> twin_dict option) \<Rightarrow> int \<Rightarrow> int
   \<Rightarrow> weather_dict option \<Rightarrow> strategy_dict list option \<Rightarrow> rng
   \<Rightarrow> error + (simulation_result \<times> rng)" where
  "simulate_single_race = simulate_single_race_with degradation_TireDegradationModel"

section \<open>race_twin.py: the simulation loop and the position histogram\<close>

text \<open>The loop of \<open>simulate_race\<close> that collects \<open>num_simulations\<close> results, each iteration
  drawing from the stream where the previous one stopped. The driver twins are taken as
  given.\<close>

fun run_simulations ::
  "tire_model_class \<Rightarrow> nat \<Rightarrow> driver_dict list \<Rightarrow> (string \<Rightarrow> twin_dict option) \<Rightarrow> int \<Rightarrow> int
   \<Rightarrow> weather_dict option \<Rightarrow> strategy_dict list option \<Rightarrow> rng
   \<Rightarrow> error + (simulation_result list \<times> rng)" where
  "run_simulations cls 0 drivers driver_twins total_laps current_lap weather_data
       pit_strategy_options g = Inr ([], g)"
| "run_simulations cls (Suc n) drivers driver_twins total_laps current_lap weather_data
       pit_strategy_options g =
     (case simulate_single_race_with cls drivers driver_twins total_laps current_lap
             weather_data pit_strategy_options g of
        Inl e \<Rightarrow> Inl e
      | Inr (result, g') \<Rightarrow>
          (case run_simulations cls n drivers driver_twins total_laps current_lap
                  weather_data pit_strategy_options g' of
             Inl e \<Rightarrow> Inl e
           | Inr (results, g'') \<Rightarrow> Inr (result # results, g'')))"

text \<open>\<open>driver_positions\<close>: for each driver, in order of first appearance, the positions it
  finished in.\<close>

fun positions_append :: "(string \<times> int list) list \<Rightarrow> string \<Rightarrow> int \<Rightarrow> (string \<times> int list) list" 
  where
  "positions_append [] driver_id pos = [(driver_id, [pos])]"
| "positions_append ((k, ps) # rest) driver_id pos =
     (if k = driver_id then (k, ps @ [pos]) # rest
      else (k, ps) # positions_append rest driver_id pos)"

definition enumerate1 :: "'a list \<Rightarrow> (int \<times> 'a) list" where
  "enumerate1 xs = zip (map int [1 ..< Suc (length xs)]) xs"

definition collect_positions :: "simulation_result list \<Rightarrow> (string \<times> int list) list" where
  "collect_positions simulation_results =
     fold (\<lambda>result driver_positions.
             fold (\<lambda>(pos, driver_id) dp. positions_append dp driver_id pos)
                  (enumerate1 (sr_finishing_order result)) driver_positions)
          simulation_results []"

text \<open>\<open>collections.Counter\<close>: the counts in order of first occurrence;
  \<open>most_common(1)\<close> is the first entry of greatest count and fails with \<open>IndexError\<close> on an
  empty counter.\<close>

fun counter_add :: "(int \<times> nat) list \<Rightarrow> int \<Rightarrow> (int \<times> nat) list" where
  "counter_add [] x = [(x, 1)]"
| "counter_add ((k, c) # rest) x =
     (if k = x then (k, Suc c) # rest else (k, c) # counter_add rest x)"

definition Counter :: "int list \<Rightarrow> (int \<times> nat) list" where
  "Counter xs = fold (\<lambda>x c. counter_add c x) xs []"

definition max_by_count :: "(int \<times> nat) \<Rightarrow> (int \<times> nat) list \<Rightarrow> int \<times> nat" where
  "max_by_count x xs = fold (\<lambda>y best. if snd y > snd best then y else best) xs x"

record finishing_prob =
  fp_driver_id :: string
  fp_position :: int
  fp_probability :: real
  fp_position_distribution :: "(int \<times> real) list"

definition finishing_prob_of :: "nat \<Rightarrow> string \<times> int list \<Rightarrow> error + finishing_prob" where
  "finishing_prob_of total_sims entry =
     (let (driver_id, positions) = entry;
          position_counter = Counter positions
      in case position_counter of
           [] \<Rightarrow> Inl IndexError
         | first # others \<Rightarrow>
             let (most_common_pos, most_common_count) = max_by_count first others;
                 probability = real most_common_count / real total_sims
             in Inr \<lparr> fp_driver_id = driver_id,
                      fp_position = most_common_pos,
                      fp_probability = probability,
                      fp_position_distribution =
                        map (\<lambda>(pos, count). (pos, real count / real total_sims))
                          position_counter \<rparr>)"

fun sequence_err :: "(error + 'a) list \<Rightarrow> error + 'a list" where
  "sequence_err [] = Inr []"
| "sequence_err (x # xs) =
     (case x of
        Inl e \<Rightarrow> Inl e
      | Inr v \<Rightarrow> (case sequence_err xs of Inl e \<Rightarrow> Inl e | Inr vs \<Rightarrow> Inr (v # vs)))"

definition analyze_finishing_positions :: "simulation_result list \<Rightarrow> error + finishing_prob list"
  where
  "analyze_finishing_positions simulation_results =
     (let driver_positions = collect_positions simulation_results;
          total_sims = length simulation_results
      in case sequence_err (map (finishing_prob_of total_sims) driver_positions) of
           Inl e \<Rightarrow> Inl e
         | Inr finishing_probs \<Rightarrow> Inr (sort_key fp_position finishing_probs))"

text \<open>The example at the end of \<open>race_twin.py\<close>: two drivers with three recorded laps
  each, for whom \<open>generate_driver_twin\<close> returns the default twin, racing from lap 10 to
  lap 50.\<close>

definition main_drivers :: "driver_dict list" where
  "main_drivers =
     [\<lparr> dr_id = ''driver_1'', dr_position = Some 1, dr_tire_age = Some 10,
         dr_tire_compound = Some ''MEDIUM'' \<rparr>,
      \<lparr> dr_id = ''driver_2'', dr_position = Some 2, dr_tire_age = Some 8,
         dr_tire_compound = Some ''SOFT'' \<rparr>]"

definition main_twins :: "string \<Rightarrow> twin_dict option" where
  "main_twins driver_id =
     (if driver_id = ''driver_1'' \<or> driver_id = ''driver_2''
      then Some \<lparr> td_pace_vector = Some 0.0, td_consistency_index = Some 0.7,
                  td_degradation_profile =
                    Some \<lparr> pd_rate = Some 0.002, pd_base_pace = None \<rparr> \<rparr>
      else None)"

text \<open>A two-driver field and a constant random stream, used to run the simulator on a
  concrete input.\<close>

definition example_drivers :: "driver_dict list" where
  "example_drivers =
     [\<lparr> dr_id = ''A'', dr_position = Some 2, dr_tire_age = Some 0,
         dr_tire_compound = Some ''MEDIUM'' \<rparr>,
      \<lparr> dr_id = ''B'', dr_position = Some 1, dr_tire_age = Some 0,
         dr_tire_compound = Some ''MEDIUM'' \<rparr>]"

definition example_twins :: "string \<Rightarrow> twin_dict option" where
  "example_twins driver_id =
     Some \<lparr> td_pace_vector = Some 0, td_consistency_index = Some 1,
            td_degradation_profile = None \<rparr>"

definition example_rng :: rng where
  "example_rng = (\<lambda>n. 0.5)"

text \<open>Three results over the drivers A and B: A wins once, B wins twice.\<close>

definition example_results :: "simulation_result list" where
  "example_results =
     [\<lparr> sr_finishing_order = [''A'', ''B''], sr_pit_stops = [], sr_total_times = [] \<rparr>,
      \<lparr> sr_finishing_order = [''B'', ''A''], sr_pit_stops = [], sr_total_times = [] \<rparr>,
      \<lparr> sr_finishing_order = [''B'', ''A''], sr_pit_stops = [], sr_total_times = [] \<rparr>]"

text \<open>Two notions for the proofs about \<open>driver_positions\<close>: the number of positions
  recorded for a driver, and the shape of the dictionary (distinct keys, no empty list).\<close>

definition len_of :: "(string \<times> int list) list \<Rightarrow> string \<Rightarrow> nat" where
  "len_of dp k = (case map_of dp k of Some ps \<Rightarrow> length ps | None \<Rightarrow> 0)"

definition dp_inv :: "(string \<times> int list) list \<Rightarrow> bool" where
  "dp_inv dp = (distinct (map fst dp) \<and> (\<forall>(k, ps) \<in> set dp. ps \<noteq> []))"

section \<open>Results: overtake probability, pit rejoin, simulation count\<close>

lemma clamp01: "max 0 (min 1 (p::real)) = clip p 0 1"
  by (simp add: clip_def max_def min_def)

lemma overtake_terms:
  "speed_advantage a d = (if d > 0 then (a - d) / d * 0.5 else 0)"
  "position_proximity p q = (if p \<noteq> q then 1 / real_of_int \<bar>p - q\<bar> else 0)"
  "tire_advantage x y = min (real_of_int (y - x) / 20) 0.5"
  by (simp_all add: speed_advantage_def position_proximity_def tire_advantage_def Let_def)

text \<open>
  Claim C6, as the specification states it, with the tyre-age term clipped below at 0: it
  fails when the attacker's tyres are older than the defender's. At equal speeds 150,
  positions 2 and 1, tyre ages 20 and 0 in sector S2 the code returns 0.15 and the
  specification's formula gives 0.35.
\<close>

theorem C6_spec_formula_counterexample:
  "calculate_overtake_probability 150 150 2 1 20 0 ''S2'' = 0.15
   \<and> spec_overtake_probability 150 150 2 1 20 0 ''S2'' = 0.35
   \<and> calculate_overtake_probability 150 150 2 1 20 0 ''S2''
       \<noteq> spec_overtake_probability 150 150 2 1 20 0 ''S2''"
  by (simp add: calculate_overtake_probability_def spec_overtake_probability_def
      overtake_terms sector_factor_def clip_def)

text \<open>
  Claim C6, amended: for \<open>defender_speed > 0\<close> and different positions the code returns
  \<open>clip(0.1 + 0.4 sa + 0.2 pp + 0.2 ta + 0.1 sf, 0, 1)\<close> with
  \<open>ta = min((defender_tire_age - attacker_tire_age)/20, 0.5)\<close>, capped above only;
  the result is the specification's formula whenever the defender's tyres are at least as
  old as the attacker's.
\<close>

theorem C6_overtake_formula_amended:
  assumes "defender_speed > 0" and "attacker_position \<noteq> defender_position"
  shows "calculate_overtake_probability attacker_speed defender_speed attacker_position
           defender_position attacker_tire_age defender_tire_age sector =
         clip (0.1
               + 0.4 * ((attacker_speed - defender_speed) / defender_speed * 0.5)
               + 0.2 * (1 / real_of_int \<bar>attacker_position - defender_position\<bar>)
               + 0.2 * min (real_of_int (defender_tire_age - attacker_tire_age) / 20) 0.5
               + 0.1 * (if sector = ''S1'' then 0.3 else if sector = ''S2'' then 0.5 else 0.4))
              0 1
         \<and> (attacker_tire_age \<le> defender_tire_age \<longrightarrow>
              calculate_overtake_probability attacker_speed defender_speed attacker_position
                defender_position attacker_tire_age defender_tire_age sector =
              spec_overtake_probability attacker_speed defender_speed attacker_position
                defender_position attacker_tire_age defender_tire_age sector)"
proof -
  have ta: "min (real_of_int (defender_tire_age - attacker_tire_age) / 20) 0.5 =
            clip (real_of_int (defender_tire_age - attacker_tire_age) / 20) 0 0.5"
    if "attacker_tire_age \<le> defender_tire_age"
    using that by (simp add: clip_def max_def)
  have code: "calculate_overtake_probability attacker_speed defender_speed attacker_position
           defender_position attacker_tire_age defender_tire_age sector =
         clip (0.1
               + 0.4 * ((attacker_speed - defender_speed) / defender_speed * 0.5)
               + 0.2 * (1 / real_of_int \<bar>attacker_position - defender_position\<bar>)
               + 0.2 * min (real_of_int (defender_tire_age - attacker_tire_age) / 20) 0.5
               + 0.1 * (if sector = ''S1'' then 0.3 else if sector = ''S2'' then 0.5 else 0.4))
              0 1"
    using assms
    by (simp add: calculate_overtake_probability_def overtake_terms sector_factor_def
        clamp01 mult.commute)
  have spec: "calculate_overtake_probability attacker_speed defender_speed attacker_position
           defender_position attacker_tire_age defender_tire_age sector =
         spec_overtake_probability attacker_speed defender_speed attacker_position
           defender_position attacker_tire_age defender_tire_age sector"
    if "attacker_tire_age \<le> defender_tire_age"
    using assms ta [OF that]
    by (simp add: calculate_overtake_probability_def spec_overtake_probability_def
        overtake_terms clamp01 mult.commute)
  from code spec show ?thesis by blast
qed

theorem C6_overtake_formula_amended_witness:
  "(150::real) > 0 \<and> (2::int) \<noteq> 1 \<and> (0::int) \<le> 20
   \<and> calculate_overtake_probability 160 150 2 1 0 20 ''S1'' = 133 / 300
   \<and> spec_overtake_probability 160 150 2 1 0 20 ''S1'' = 133 / 300
   \<and> calculate_overtake_probability 150 150 2 1 20 0 ''S2'' = 3 / 20"
  using C6_overtake_formula_amended [of 150 2 1 160 0 20 "''S1''"]
        C6_overtake_formula_amended [of 150 2 1 150 20 0 "''S2''"]
  by (simp add: clip_def)

text \<open>
  Claim C8: the stored simulation count is \<open>max(100, min(n, 500))\<close>: it lies in
  \<open>[100, 500]\<close>, a request of 50 gives 100, a request of 1000 gives 500, and a request
  already in \<open>[100, 500]\<close> is kept.
\<close>

theorem C8_num_simulations_clamped:
  "100 \<le> RaceTwinSimulator_num_simulations n
   \<and> RaceTwinSimulator_num_simulations n \<le> 500
   \<and> RaceTwinSimulator_num_simulations 50 = 100
   \<and> RaceTwinSimulator_num_simulations 1000 = 500
   \<and> (100 \<le> n \<and> n \<le> 500 \<longrightarrow> RaceTwinSimulator_num_simulations n = n)"
  by (simp add: RaceTwinSimulator_num_simulations_def)

theorem C8_num_simulations_clamped_witness:
  "(100::int) \<le> 250 \<and> (250::int) \<le> 500 \<and> RaceTwinSimulator_num_simulations 250 = 250
   \<and> RaceTwinSimulator_num_simulations 50 = 100
   \<and> RaceTwinSimulator_num_simulations 1000 = 500"
  using C8_num_simulations_clamped [of 250] by simp

subsection \<open>Rounding to the nearest double\<close>

text \<open>\<open>round_even\<close> is within one half of its argument, monotone and odd.\<close>

lemma round_even_lower: "\<lfloor>y\<rfloor> \<le> round_even y"
  by (simp add: round_even_def Let_def)

lemma round_even_upper: "round_even y \<le> \<lfloor>y\<rfloor> + 1"
  by (simp add: round_even_def Let_def)

lemma round_even_of_int: "round_even (of_int n) = n"
  by (simp add: round_even_def)

lemma round_even_err: "\<bar>of_int (round_even y) - y\<bar> \<le> 1/2"
proof -
  have a: "of_int \<lfloor>y\<rfloor> \<le> y" by simp
  have b: "y < of_int \<lfloor>y\<rfloor> + 1" by linarith
  show ?thesis
    unfolding round_even_def Let_def using a b
    by (simp split: if_splits)
qed

lemma round_even_mono: 
  assumes yz: "y \<le> z" shows "round_even y \<le> round_even z"
proof (cases "\<lfloor>y\<rfloor> = \<lfloor>z\<rfloor>")
  case True
  with yz show ?thesis by (simp add: round_even_def Let_def)
next
  case False
  moreover have "\<lfloor>y\<rfloor> \<le> \<lfloor>z\<rfloor>" using yz by (rule floor_mono)
  ultimately have "\<lfloor>y\<rfloor> + 1 \<le> \<lfloor>z\<rfloor>" by simp
  with round_even_upper [of y] round_even_lower [of z] show ?thesis by linarith
qed

lemma floor_minus_nonint:
  assumes "y \<noteq> of_int \<lfloor>y\<rfloor>" shows "\<lfloor>- y\<rfloor> = - \<lfloor>y\<rfloor> - 1"
proof (rule floor_unique)
  have a: "of_int \<lfloor>y\<rfloor> \<le> y" by simp
  have b: "y < of_int \<lfloor>y\<rfloor> + 1" by linarith
  from a assms have c: "of_int \<lfloor>y\<rfloor> < y" by (metis order_less_le)
  show "of_int (- \<lfloor>y\<rfloor> - 1) \<le> - y" using b by simp
  show "- y < of_int (- \<lfloor>y\<rfloor> - 1) + 1" using c by simp
qed

lemma round_even_minus: "round_even (- y) = - round_even y"
proof (cases "y = of_int \<lfloor>y\<rfloor>")
  case True
  then obtain n :: int where n: "y = of_int n" ..
  have "round_even (of_int (- n)) = - n" by (rule round_even_of_int)
  then show ?thesis unfolding n by (simp add: round_even_of_int)
next
  case False
  then have f: "\<lfloor>- y\<rfloor> = - \<lfloor>y\<rfloor> - 1" by (rule floor_minus_nonint)
  have d: "- y - of_int (- \<lfloor>y\<rfloor> - 1) = 1 - (y - of_int \<lfloor>y\<rfloor>)" by simp
  show ?thesis
    unfolding round_even_def Let_def f d
    by (simp split: if_splits)
qed


lemma powr_powi: "(2::real) powr of_int n = 2 powi n"
  by (simp add: powr_real_of_int')

lemma pow2_floor_log:
  assumes "0 < x"
  shows "2 powi \<lfloor>log 2 x\<rfloor> \<le> x \<and> x < 2 powi (\<lfloor>log 2 x\<rfloor> + 1)"
proof -
  have "(2::real) powr of_int \<lfloor>log 2 x\<rfloor> \<le> x \<and> x < 2 powr of_int (\<lfloor>log 2 x\<rfloor> + 1)"
    using floor_log_eq_powr_iff [of x 2 "\<lfloor>log 2 x\<rfloor>"] assms by simp
  then show ?thesis by (simp only: powr_powi)
qed

lemma floor_log_eqI:
  assumes "0 < x" "2 powi k \<le> x" "x < 2 powi (k + 1)"
  shows "\<lfloor>log 2 x\<rfloor> = k"
proof -
  have "(2::real) powr of_int k \<le> x \<and> x < 2 powr of_int (k + 1)"
    using assms by (simp only: powr_powi)
  then show ?thesis
    using floor_log_eq_powr_iff [of x 2 k] assms by simp
qed

lemma scaled_range:
  assumes "0 < x"
  shows "2 ^ 52 \<le> x * 2 powi (- (\<lfloor>log 2 x\<rfloor> - 52))
       \<and> x * 2 powi (- (\<lfloor>log 2 x\<rfloor> - 52)) < 2 ^ 53"
proof -
  define k where "k = \<lfloor>log 2 x\<rfloor>"
  have p: "(0::real) < 2 powi (52 - k)" by simp
  have a: "2 powi k \<le> x" and b: "x < 2 powi (k + 1)"
    using pow2_floor_log [OF assms] by (simp_all add: k_def)
  have "2 powi k * 2 powi (52 - k) \<le> x * 2 powi (52 - k)"
    using a p by (simp only: mult_le_cancel_right_pos)
  moreover have "(2::real) powi k * 2 powi (52 - k) = 2 powi 52"
    by (simp add: power_int_add [symmetric])
  moreover have "x * 2 powi (52 - k) < 2 powi (k + 1) * 2 powi (52 - k)"
    using b p by (simp only: mult_less_cancel_right_pos)
  moreover have "(2::real) powi (k + 1) * 2 powi (52 - k) = 2 powi 53"
    by (simp add: power_int_add [symmetric])
  ultimately show ?thesis
    unfolding k_def [symmetric] by simp
qed

lemma pow2_add: "(2::real) powi m * 2 powi n = 2 powi (m + n)"
  by (simp add: power_int_add)

lemma rnd_pos:
  "0 < x \<Longrightarrow>
   rnd x = of_int (round_even (x * 2 powi (- (\<lfloor>log 2 x\<rfloor> - 52)))) * 2 powi (\<lfloor>log 2 x\<rfloor> - 52)"
  by (simp add: rnd_def Let_def)


lemma round_even_range:
  assumes "2 ^ 52 \<le> y" "y < 2 ^ 53"
  shows "2 ^ 52 \<le> round_even y \<and> round_even y \<le> 2 ^ 53"
proof -
  have "round_even (of_int (2 ^ 52)) \<le> round_even y"
    using assms(1) by (intro round_even_mono) simp
  moreover have "round_even y \<le> round_even (of_int (2 ^ 53))"
    using assms(2) by (intro round_even_mono) simp
  ultimately show ?thesis by (simp only: round_even_of_int) 
qed


lemma rnd_pos_bounds:
  assumes "0 < x"
  shows "2 powi \<lfloor>log 2 x\<rfloor> \<le> rnd x \<and> rnd x \<le> 2 powi (\<lfloor>log 2 x\<rfloor> + 1)"
proof -
  define k where "k = \<lfloor>log 2 x\<rfloor>"
  define n where "n = round_even (x * 2 powi (- (k - 52)))"
  have r: "rnd x = of_int n * 2 powi (k - 52)"
    using rnd_pos [OF assms] by (simp only: k_def n_def)
  have nb: "2 ^ 52 \<le> n \<and> n \<le> 2 ^ 53"
    unfolding n_def k_def using scaled_range [OF assms] by (intro round_even_range) simp_all
  have "(of_int (2 ^ 52) :: real) \<le> of_int n" using nb by (simp only: of_int_le_iff)
  then have a: "(2::real) powi 52 \<le> of_int n" by simp
  have "(of_int n :: real) \<le> of_int (2 ^ 53)" using nb by (simp only: of_int_le_iff)
  then have b: "of_int n \<le> (2::real) powi 53" by simp
  have p: "(0::real) < 2 powi (k - 52)" by simp
  have e52: "52 + (k - 52) = k" and e53: "53 + (k - 52) = k + 1" by simp_all
  have "(2::real) powi 52 * 2 powi (k - 52) \<le> of_int n * 2 powi (k - 52)"
    using a p by (simp only: mult_le_cancel_right_pos)
  moreover have "(2::real) powi 52 * 2 powi (k - 52) = 2 powi k"
    using e52 by (simp only: pow2_add)
  moreover have "of_int n * 2 powi (k - 52) \<le> (2::real) powi 53 * 2 powi (k - 52)"
    using b p by (simp only: mult_le_cancel_right_pos)
  moreover have "(2::real) powi 53 * 2 powi (k - 52) = 2 powi (k + 1)"
    using e53 by (simp only: pow2_add)
  ultimately show ?thesis
    unfolding k_def [symmetric] r by (simp only:) 
qed

lemma rnd_zero: "rnd 0 = 0"
  by (simp add: rnd_def)


lemma rnd_minus: "rnd (- x) = - rnd x"
  by (simp add: rnd_def Let_def round_even_minus)


lemma rnd_pos_pos: "0 < x \<Longrightarrow> 0 < rnd x"
proof -
  assume x: "0 < x"
  have "(0::real) < 2 powi \<lfloor>log 2 x\<rfloor>" by simp
  with rnd_pos_bounds [OF x] show ?thesis by linarith
qed


lemma rnd_mono_pos:
  assumes x: "0 < x" and xy: "x \<le> y"
  shows "rnd x \<le> rnd y"
proof -
  have y: "0 < y" using x xy by simp
  define k where "k = \<lfloor>log 2 x\<rfloor>"
  define l where "l = \<lfloor>log 2 y\<rfloor>"
  have kl: "k \<le> l"
    unfolding k_def l_def using x xy by (intro floor_mono) simp
  show ?thesis
  proof (cases "k = l")
    case True
    have p: "(0::real) < 2 powi (- (k - 52))" by simp
    have "x * 2 powi (- (k - 52)) \<le> y * 2 powi (- (k - 52))"
      using xy p by (simp only: mult_le_cancel_right_pos)
    then have "round_even (x * 2 powi (- (k - 52))) \<le> round_even (y * 2 powi (- (k - 52)))"
      by (rule round_even_mono)
    then have "(of_int (round_even (x * 2 powi (- (k - 52)))) :: real)
        \<le> of_int (round_even (y * 2 powi (- (k - 52))))" by simp
    then have "of_int (round_even (x * 2 powi (- (k - 52)))) * 2 powi (k - 52)
        \<le> of_int (round_even (y * 2 powi (- (k - 52)))) * (2::real) powi (k - 52)"
      by (intro mult_right_mono) simp_all
    then show ?thesis
      using rnd_pos [OF x] rnd_pos [OF y] True by (simp add: k_def l_def)
  next
    case False
    with kl have "k + 1 \<le> l" by simp
    then have "(2::real) powi (k + 1) \<le> 2 powi l"
      by (intro power_int_increasing) simp_all
    moreover have "rnd x \<le> 2 powi (k + 1)"
      using rnd_pos_bounds [OF x] by (simp add: k_def)
    moreover have "2 powi l \<le> rnd y"
      using rnd_pos_bounds [OF y] by (simp add: l_def)
    ultimately show ?thesis by linarith
  qed
qed


lemma rnd_mono:
  assumes xy: "x \<le> y"
  shows "rnd x \<le> rnd y"
proof -
  consider "0 < x" | "x = 0" "y = 0" | "x = 0" "0 < y" | "x < 0" "y = 0" | "x < 0" "0 < y"
    | "x < 0" "y < 0" using xy by linarith
  then show ?thesis
  proof cases
    case 1
    then show ?thesis using xy by (rule rnd_mono_pos)
  next
    case 2
    then show ?thesis by simp
  next
    case 3
    then show ?thesis using rnd_pos_pos [of y] by (simp add: rnd_zero)
  next
    case 4
    then show ?thesis using rnd_pos_pos [of "- x"] by (simp add: rnd_zero rnd_minus)
  next
    case 5
    then show ?thesis using rnd_pos_pos [of "- x"] rnd_pos_pos [of y] by (simp add: rnd_minus)
  next
    case 6
    then have "rnd (- y) \<le> rnd (- x)" using xy by (intro rnd_mono_pos) simp_all
    then show ?thesis by (simp add: rnd_minus)
  qed
qed





lemma rnd_err_pos:
  assumes x: "0 < x"
  shows "\<bar>rnd x - x\<bar> \<le> x / 2 ^ 53"
proof -
  define k where "k = \<lfloor>log 2 x\<rfloor>"
  define y where "y = x * 2 powi (- (k - 52))"
  define n where "n = round_even y"
  have r: "rnd x = of_int n * 2 powi (k - 52)"
    using rnd_pos [OF x] by (simp only: k_def n_def y_def)
  have "y * 2 powi (k - 52) = x * (2 powi (- (k - 52)) * 2 powi (k - 52))"
    by (simp only: y_def mult.assoc)
  also have "\<dots> = x" by (simp only: pow2_add) simp
  finally have xy: "x = y * 2 powi (k - 52)" by simp
  have "rnd x - x = of_int n * 2 powi (k - 52) - y * 2 powi (k - 52)"
    by (simp only: r xy [symmetric])
  then have "rnd x - x = (of_int n - y) * 2 powi (k - 52)"
    by (simp only: left_diff_distrib)
  then have "\<bar>rnd x - x\<bar> = \<bar>of_int n - y\<bar> * 2 powi (k - 52)"
    by (simp add: abs_mult)
  also have "\<dots> \<le> 1 / 2 * 2 powi (k - 52)"
    using round_even_err [of y] unfolding n_def by (intro mult_right_mono) simp_all
  finally have a: "\<bar>rnd x - x\<bar> \<le> 2 powi (k - 52) / 2" by simp
  have e52: "52 + (k - 52) = k" by simp
  have "(2::real) powi 52 * 2 powi (k - 52) = 2 powi k"
    using e52 by (simp only: pow2_add)
  moreover have "2 powi k \<le> x" using pow2_floor_log [OF x] by (simp add: k_def)
  ultimately have "2 powi 52 * 2 powi (k - 52) \<le> x" by simp
  then have "2 powi (k - 52) \<le> x / 2 ^ 52" by (simp add: field_simps)
  then have "2 powi (k - 52) / 2 \<le> x / 2 ^ 53" by simp
  with a show ?thesis by linarith
qed

lemma rnd_err: "\<bar>rnd x - x\<bar> \<le> \<bar>x\<bar> / 2 ^ 53"
proof -
  consider "0 < x" | "x = 0" | "x < 0" by linarith
  then show ?thesis
  proof cases
    case 1
    then show ?thesis using rnd_err_pos [of x] by simp
  next
    case 2
    then show ?thesis by (simp add: rnd_zero)
  next
    case 3
    then have "\<bar>rnd (- x) - (- x)\<bar> \<le> (- x) / 2 ^ 53" by (intro rnd_err_pos) simp
    then show ?thesis using 3 by (simp add: rnd_minus)
  qed
qed

lemma rnd_err_bound:
  assumes "\<bar>x\<bar> \<le> B"
  shows "\<bar>rnd x - x\<bar> \<le> B / 2 ^ 53"
proof -
  have "\<bar>x\<bar> / 2 ^ 53 \<le> B / 2 ^ 53" using assms by (simp add: divide_right_mono)
  with rnd_err [of x] show ?thesis by linarith
qed

lemma rnd_eval:
  assumes x: "0 < x" and lo: "2 ^ 52 \<le> x * 2 powi (- e)" and hi: "x * 2 powi (- e) < 2 ^ 53"
  shows "rnd x = of_int (round_even (x * 2 powi (- e))) * 2 powi e"
proof -
  have p: "(0::real) < 2 powi e" by simp
  have c: "x * 2 powi (- e) * 2 powi e = x"
    by (simp only: mult.assoc pow2_add) simp
  have "2 powi 52 * 2 powi e \<le> x * 2 powi (- e) * 2 powi e"
    using lo p by (simp only: mult_le_cancel_right_pos) simp
  then have a: "2 powi (e + 52) \<le> x"
    by (simp only: c pow2_add add.commute)
  have "x * 2 powi (- e) * 2 powi e < 2 powi 53 * 2 powi e"
    using hi p by (simp only: mult_less_cancel_right_pos) simp
  then have b: "x < 2 powi (e + 52 + 1)"
    by (simp only: c pow2_add) (simp add: add.commute)
  have "\<lfloor>log 2 x\<rfloor> = e + 52" using x a b by (rule floor_log_eqI)
  then show ?thesis using rnd_pos [OF x] by simp
qed

lemma round_even_numeral: "round_even (numeral n) = numeral n"
  using round_even_of_int [of "numeral n"] by simp

lemma rnd_one: "rnd 1 = 1"
  using rnd_eval [of 1 "- 52"] by (simp add: round_even_numeral)

text \<open>Doubles with a short significand, and the float literals used below.\<close>

lemma rnd_dyadic:
  "rnd (1/2) = 1/2" "rnd (3/2) = 3/2" "rnd (3/4) = 3/4" "rnd (5/4) = 5/4"
  "rnd (7/8) = 7/8" "rnd (7/16) = 7/16" "rnd (23/16) = 23/16" "rnd (69/32) = 69/32"
  "rnd (9/4) = 9/4" "rnd (45/16) = 45/16"
  using rnd_eval [of "1/2" "- 53"] rnd_eval [of "3/2" "- 52"] rnd_eval [of "3/4" "- 53"]
    rnd_eval [of "5/4" "- 52"] rnd_eval [of "7/8" "- 53"] rnd_eval [of "7/16" "- 54"]
    rnd_eval [of "23/16" "- 52"] rnd_eval [of "69/32" "- 51"] rnd_eval [of "9/4" "- 51"]
    rnd_eval [of "45/16" "- 51"]
  by (simp_all add: round_even_numeral)

lemma rnd_literals:
  "rnd 0.6 = 5404319552844595 / 2 ^ 53"
  "rnd 0.6000000000000001 = 5404319552844596 / 2 ^ 53"
  "rnd 0.9 = 8106479329266893 / 2 ^ 53"
  "rnd 1.2 = 5404319552844595 / 2 ^ 52"
  "rnd 24.34 = 6851100933137367 / 2 ^ 48"
  "rnd 24.61 = 6927099176849244 / 2 ^ 48"
  "rnd 23.8 = 6699104445713613 / 2 ^ 48"
  using rnd_eval [of "0.6" "- 53"] rnd_eval [of "0.6000000000000001" "- 53"]
    rnd_eval [of "0.9" "- 53"] rnd_eval [of "1.2" "- 52"] rnd_eval [of "24.34" "- 48"]
    rnd_eval [of "24.61" "- 48"] rnd_eval [of "23.8" "- 48"]
  by (simp_all add: round_even_def)

lemma rnd_ge: "rnd a = a \<Longrightarrow> a \<le> x \<Longrightarrow> a \<le> rnd x"
  using rnd_mono [of a x] by simp

lemma rnd_le: "rnd b = b \<Longrightarrow> x \<le> b \<Longrightarrow> rnd x \<le> b"
  using rnd_mono [of x b] by simp

subsection \<open>Pit rejoin: time lost against traffic density\<close>

lemma time_lost_eq:
  "rr_time_lost (simulate_pit_rejoin driver_id current_position pit_lap pit_time
       average_lap_time d total_cars sector) =
   rnd (pit_time + calculate_rejoin_time_loss d sector average_lap_time)"
  by (simp add: simulate_pit_rejoin_def fadd_def Let_def)

lemma rejoin_loss_eq:
  "calculate_rejoin_time_loss d sector a
   = rnd (rnd (3/2 * rnd (1 + rnd (d * (1/2)))) * sector_penalties_get sector 1)"
  by (simp add: calculate_rejoin_time_loss_def fadd_def fmul_def Let_def)

lemma sector_mult_range:
  "3/4 \<le> sector_penalties_get sector 1 \<and> sector_penalties_get sector 1 \<le> 5/4"
proof -
  have "3/4 \<le> rnd 0.8" by (rule rnd_ge) (simp_all add: rnd_dyadic)
  moreover have "rnd 0.8 \<le> 5/4" by (rule rnd_le) (simp_all add: rnd_dyadic)
  moreover have "3/4 \<le> rnd 1.2" by (rule rnd_ge) (simp_all add: rnd_dyadic)
  moreover have "rnd 1.2 \<le> 5/4" by (rule rnd_le) (simp_all add: rnd_dyadic)
  ultimately show ?thesis by (simp add: sector_penalties_get_def)
qed

lemma rejoin_loss_mono:
  assumes "d1 \<le> d2"
  shows "calculate_rejoin_time_loss d1 sector a \<le> calculate_rejoin_time_loss d2 sector a"
proof -
  have s: "0 \<le> sector_penalties_get sector 1" using sector_mult_range [of sector] by linarith
  have "rnd (d1 * (1/2)) \<le> rnd (d2 * (1/2))" using assms by (intro rnd_mono) simp
  then have "rnd (1 + rnd (d1 * (1/2))) \<le> rnd (1 + rnd (d2 * (1/2)))"
    by (intro rnd_mono) simp
  then have "rnd (3/2 * rnd (1 + rnd (d1 * (1/2)))) \<le> rnd (3/2 * rnd (1 + rnd (d2 * (1/2))))"
    by (intro rnd_mono) simp
  then have "rnd (3/2 * rnd (1 + rnd (d1 * (1/2)))) * sector_penalties_get sector 1
      \<le> rnd (3/2 * rnd (1 + rnd (d2 * (1/2)))) * sector_penalties_get sector 1"
    using s by (rule mult_right_mono)
  then show ?thesis unfolding rejoin_loss_eq by (rule rnd_mono)
qed

lemma time_lost_mono:
  assumes "d1 \<le> d2"
  shows "rnd (p + calculate_rejoin_time_loss d1 sector a)
       \<le> rnd (p + calculate_rejoin_time_loss d2 sector a)"
  using rejoin_loss_mono [OF assms, of sector a] by (intro rnd_mono) simp

lemma rejoin_loss_zero:
  "calculate_rejoin_time_loss 0 sector a = rnd (3/2 * sector_penalties_get sector 1)"
  by (simp add: rejoin_loss_eq rnd_zero rnd_one rnd_dyadic)

lemma rejoin_loss_zero_range:
  "0 \<le> calculate_rejoin_time_loss 0 sector a
   \<and> calculate_rejoin_time_loss 0 sector a \<le> 3/2 * sector_penalties_get sector 1 + 2 / 2 ^ 53"
proof -
  define s where "s = sector_penalties_get sector 1"
  have r: "3/4 \<le> s \<and> s \<le> 5/4" unfolding s_def by (rule sector_mult_range)
  then have "\<bar>3/2 * s\<bar> \<le> 2" by simp
  then have "\<bar>rnd (3/2 * s) - 3/2 * s\<bar> \<le> 2 / 2 ^ 53" by (rule rnd_err_bound)
  moreover have "rnd 0 \<le> rnd (3/2 * s)" using r by (intro rnd_mono) simp
  ultimately show ?thesis unfolding rejoin_loss_zero s_def [symmetric] rnd_zero by linarith
qed

lemma rnd_0_9_range: "7/8 \<le> rnd 0.9 \<and> rnd 0.9 \<le> 1"
proof -
  have "7/8 \<le> rnd 0.9" by (rule rnd_ge) (simp_all add: rnd_dyadic)
  moreover have "rnd 0.9 \<le> 1" by (rule rnd_le) (simp_all add: rnd_one)
  ultimately show ?thesis ..
qed

lemma rejoin_loss_high_range:
  assumes d: "7/8 \<le> d" "d \<le> 1"
  shows "69/32 * sector_penalties_get sector 1 - 4 / 2 ^ 53
           \<le> calculate_rejoin_time_loss d sector a
       \<and> calculate_rejoin_time_loss d sector a \<le> 45/16"
proof -
  define s where "s = sector_penalties_get sector 1"
  have r: "3/4 \<le> s \<and> s \<le> 5/4" unfolding s_def by (rule sector_mult_range)
  define t1 where "t1 = rnd (d * (1/2))"
  define t2 where "t2 = rnd (1 + t1)"
  define t3 where "t3 = rnd (3/2 * t2)"
  have l1: "7/16 \<le> t1" unfolding t1_def using d by (intro rnd_ge) (simp_all add: rnd_dyadic)
  have u1: "t1 \<le> 1/2" unfolding t1_def using d by (intro rnd_le) (simp_all add: rnd_dyadic)
  have l2: "23/16 \<le> t2" unfolding t2_def using l1 by (intro rnd_ge) (simp_all add: rnd_dyadic)
  have u2: "t2 \<le> 3/2" unfolding t2_def using u1 by (intro rnd_le) (simp_all add: rnd_dyadic)
  have l3: "69/32 \<le> t3" unfolding t3_def using l2 by (intro rnd_ge) (simp_all add: rnd_dyadic)
  have u3: "t3 \<le> 9/4" unfolding t3_def using u2 by (intro rnd_le) (simp_all add: rnd_dyadic)
  have e: "calculate_rejoin_time_loss d sector a = rnd (t3 * s)"
    by (simp only: rejoin_loss_eq t1_def t2_def t3_def s_def)
  have "t3 * s \<le> 9/4 * (5/4)" using u3 r l3 by (intro mult_mono) simp_all
  then have up: "t3 * s \<le> 45/16" by simp
  then have u4: "rnd (t3 * s) \<le> 45/16" by (intro rnd_le) (simp_all add: rnd_dyadic)
  have "69/32 * s \<le> t3 * s" using l3 r by (intro mult_right_mono) simp_all
  moreover have "0 \<le> 69/32 * s" using r by simp
  ultimately have "\<bar>t3 * s\<bar> \<le> 4" and lo: "69/32 * s \<le> t3 * s" using up by simp_all
  then have "\<bar>rnd (t3 * s) - t3 * s\<bar> \<le> 4 / 2 ^ 53" by (intro rnd_err_bound)
  then have "69/32 * s - 4 / 2 ^ 53 \<le> rnd (t3 * s)" using lo by linarith
  with u4 show ?thesis unfolding e s_def [symmetric] by simp
qed

lemma time_lost_strict:
  assumes p: "\<bar>p\<bar> \<le> 2 ^ 40"
  shows "rnd (p + calculate_rejoin_time_loss 0 sector a)
       < rnd (p + calculate_rejoin_time_loss (rnd 0.9) sector a)"
proof -
  define s where "s = sector_penalties_get sector 1"
  define L0 where "L0 = calculate_rejoin_time_loss 0 sector a"
  define L9 where "L9 = calculate_rejoin_time_loss (rnd 0.9) sector a"
  have r: "3/4 \<le> s \<and> s \<le> 5/4" unfolding s_def by (rule sector_mult_range)
  have u0: "0 \<le> L0 \<and> L0 \<le> 3/2 * s + 2 / 2 ^ 53"
    unfolding L0_def s_def by (rule rejoin_loss_zero_range)
  have h: "69/32 * s - 4 / 2 ^ 53 \<le> L9 \<and> L9 \<le> 45/16"
    unfolding L9_def s_def using rnd_0_9_range by (intro rejoin_loss_high_range) simp_all
  have gap: "49/100 \<le> L9 - L0" using u0 h r by simp
  have pb: "\<bar>p\<bar> \<le> 1099511627776" using p by simp
  have "\<bar>p + L0\<bar> \<le> 2199023255552" using pb u0 gap h by linarith
  then have "\<bar>rnd (p + L0) - (p + L0)\<bar> \<le> 2199023255552 / 2 ^ 53" by (rule rnd_err_bound)
  then have e0: "\<bar>rnd (p + L0) - (p + L0)\<bar> \<le> 1 / 4096" by simp
  have "\<bar>p + L9\<bar> \<le> 2199023255552" using pb u0 gap h by linarith
  then have "\<bar>rnd (p + L9) - (p + L9)\<bar> \<le> 2199023255552 / 2 ^ 53" by (rule rnd_err_bound)
  then have e9: "\<bar>rnd (p + L9) - (p + L9)\<bar> \<le> 1 / 4096" by simp
  have "rnd (p + L0) < rnd (p + L9)" using e0 e9 gap by linarith
  then show ?thesis by (simp only: L0_def L9_def)
qed

text \<open>The run at \<open>pit_time = 22.0\<close> in sector S2, step by step, for the densities \<open>0.6\<close>,
  the next double above it, \<open>0.9\<close> and \<open>0.0\<close>.\<close>

lemma rejoin_chain:
  "rnd (5404319552844595 / 2 ^ 53 * (1/2)) = 5404319552844595 / 2 ^ 54"
  "rnd (1 + 5404319552844595 / 2 ^ 54) = 5854679515581645 / 2 ^ 52"
  "rnd (5404319552844596 / 2 ^ 53 * (1/2)) = 5404319552844596 / 2 ^ 54"
  "rnd (1 + 5404319552844596 / 2 ^ 54) = 5854679515581645 / 2 ^ 52"
  "rnd (3/2 * (5854679515581645 / 2 ^ 52)) = 8782019273372468 / 2 ^ 52"
  "rnd (8782019273372468 / 2 ^ 52 * (5404319552844595 / 2 ^ 52)) = 5269211564023481 / 2 ^ 51"
  "rnd (22 + 5269211564023481 / 2 ^ 51) = 6851100933137367 / 2 ^ 48"
  "rnd (8106479329266893 / 2 ^ 53 * (1/2)) = 8106479329266893 / 2 ^ 54"
  "rnd (1 + 8106479329266893 / 2 ^ 54) = 6530219459687219 / 2 ^ 52"
  "rnd (3/2 * (6530219459687219 / 2 ^ 52)) = 4897664594765414 / 2 ^ 51"
  "rnd (4897664594765414 / 2 ^ 51 * (5404319552844595 / 2 ^ 52)) = 5877197513718497 / 2 ^ 51"
  "rnd (22 + 5877197513718497 / 2 ^ 51) = 6927099176849244 / 2 ^ 48"
  "rnd (3/2 * (5404319552844595 / 2 ^ 52)) = 8106479329266892 / 2 ^ 52"
  "rnd (22 + 8106479329266892 / 2 ^ 52) = 6699104445713613 / 2 ^ 48"
  using rnd_eval [of "5404319552844595 / 2 ^ 53 * (1/2)" "- 54"]
    rnd_eval [of "1 + 5404319552844595 / 2 ^ 54" "- 52"]
    rnd_eval [of "5404319552844596 / 2 ^ 53 * (1/2)" "- 54"]
    rnd_eval [of "1 + 5404319552844596 / 2 ^ 54" "- 52"]
    rnd_eval [of "3/2 * (5854679515581645 / 2 ^ 52)" "- 52"]
    rnd_eval [of "8782019273372468 / 2 ^ 52 * (5404319552844595 / 2 ^ 52)" "- 51"]
    rnd_eval [of "22 + 5269211564023481 / 2 ^ 51" "- 48"]
    rnd_eval [of "8106479329266893 / 2 ^ 53 * (1/2)" "- 54"]
    rnd_eval [of "1 + 8106479329266893 / 2 ^ 54" "- 52"]
    rnd_eval [of "3/2 * (6530219459687219 / 2 ^ 52)" "- 51"]
    rnd_eval [of "4897664594765414 / 2 ^ 51 * (5404319552844595 / 2 ^ 52)" "- 51"]
    rnd_eval [of "22 + 5877197513718497 / 2 ^ 51" "- 48"]
    rnd_eval [of "3/2 * (5404319552844595 / 2 ^ 52)" "- 52"]
    rnd_eval [of "22 + 8106479329266892 / 2 ^ 52" "- 48"]
  by (simp_all add: round_even_def)

lemma sector_mult_S2: "sector_penalties_get ''S2'' 1 = rnd 1.2"
  by (simp add: sector_penalties_get_def)

lemma time_lost_zero_example:
  "rnd (22 + calculate_rejoin_time_loss 0 ''S2'' a) = rnd 23.8"
  unfolding rejoin_loss_zero sector_mult_S2 rnd_literals rejoin_chain ..

lemma time_lost_examples:
  "rnd (22 + calculate_rejoin_time_loss (rnd 0.6) ''S2'' a) = rnd 24.34"
  "rnd (22 + calculate_rejoin_time_loss (rnd 0.6000000000000001) ''S2'' a) = rnd 24.34"
  "rnd (22 + calculate_rejoin_time_loss (rnd 0.9) ''S2'' a) = rnd 24.61"
  unfolding rejoin_loss_eq sector_mult_S2 rnd_literals rejoin_chain
  by (rule refl)+

text \<open>A pit time so large that the rejoin loss is below half a unit in its last place
  absorbs the loss altogether: at \<open>pit_time = 2^60\<close> the densities 0.0 and 0.9 lose the
  same time, which is why the strict comparison below bounds \<open>pit_time\<close>.\<close>

lemma rnd_pow60: "rnd (2 ^ 60) = 2 ^ 60" "rnd (2 ^ 60 + 3) = 2 ^ 60"
  using rnd_eval [of "2 ^ 60" 8] rnd_eval [of "2 ^ 60 + 3" 8]
  by (simp_all add: round_even_def)

lemma time_lost_absorbed:
  "rr_time_lost (simulate_pit_rejoin driver_id current_position pit_lap (2 ^ 60)
       average_lap_time 0 total_cars sector)
   = rr_time_lost (simulate_pit_rejoin driver_id current_position pit_lap (2 ^ 60)
       average_lap_time (rnd 0.9) total_cars sector)"
proof -
  define L0 where "L0 = calculate_rejoin_time_loss 0 sector average_lap_time"
  define L9 where "L9 = calculate_rejoin_time_loss (rnd 0.9) sector average_lap_time"
  have z: "0 \<le> L0"
    unfolding L0_def using rejoin_loss_zero_range [of sector average_lap_time] by simp
  have h: "L9 \<le> 45/16"
    unfolding L9_def
    using rnd_0_9_range rejoin_loss_high_range [of "rnd 0.9" sector average_lap_time] by simp
  have m: "L0 \<le> L9"
    unfolding L0_def L9_def using rnd_0_9_range by (intro rejoin_loss_mono) simp
  have b: "rnd (2 ^ 60 + L) = 2 ^ 60" if "0 \<le> L" "L \<le> 3" for L
  proof -
    have "rnd (2 ^ 60) \<le> rnd (2 ^ 60 + L)" using that by (intro rnd_mono) simp
    moreover have "rnd (2 ^ 60 + L) \<le> rnd (2 ^ 60 + 3)" using that by (intro rnd_mono) simp
    ultimately have "2 ^ 60 \<le> rnd (2 ^ 60 + L) \<and> rnd (2 ^ 60 + L) \<le> 2 ^ 60"
      by (simp only: rnd_pow60)
    then show ?thesis by linarith
  qed
  have "rnd (2 ^ 60 + L0) = 2 ^ 60" using z m h by (intro b) simp_all
  moreover have "rnd (2 ^ 60 + L9) = 2 ^ 60" using z m h by (intro b) simp_all
  ultimately show ?thesis by (simp only: time_lost_eq L0_def L9_def)
qed

text \<open>
  Claim C9, as the specification states it: \<open>time_lost\<close> is not strictly increasing in
  \<open>traffic_density\<close>. The doubles \<open>0.6\<close> and \<open>0.6000000000000001\<close> (the next double above
  it) differ, but \<open>1.0 + traffic_density * 0.5\<close> rounds to the same double \<open>1.3\<close> for both,
  and with \<open>pit_time = 22.0\<close> in sector S2 both calls return \<open>time_lost = 24.34\<close>.
\<close>

theorem C9_strictly_increasing_counterexample:
  "rnd 0.6 < rnd 0.6000000000000001
   \<and> rr_time_lost (simulate_pit_rejoin ''driver_1'' 5 20 22 95 (rnd 0.6) 20 ''S2'')
       = rnd 24.34
   \<and> rr_time_lost (simulate_pit_rejoin ''driver_1'' 5 20 22 95 (rnd 0.6000000000000001)
         20 ''S2'') = rnd 24.34
   \<and> \<not> rr_time_lost (simulate_pit_rejoin ''driver_1'' 5 20 22 95 (rnd 0.6) 20 ''S2'')
       < rr_time_lost (simulate_pit_rejoin ''driver_1'' 5 20 22 95 (rnd 0.6000000000000001)
           20 ''S2'')"
proof -
  have "rnd 0.6 < rnd 0.6000000000000001" unfolding rnd_literals by simp
  then show ?thesis by (simp only: time_lost_eq time_lost_examples) simp
qed

text \<open>
  Claim C9, amended: with every other argument fixed, \<open>time_lost\<close> of
  \<open>simulate_pit_rejoin\<close> is non-decreasing in \<open>traffic_density\<close>, for every sector string
  and every pit time; and for a pit time of absolute value at most \<open>2^40\<close> seconds,
  density \<open>0.0\<close> loses strictly less time than density \<open>0.9\<close>.
\<close>

theorem C9_time_lost_nondecreasing:
  "(d1 \<le> d2 \<longrightarrow>
      rr_time_lost (simulate_pit_rejoin driver_id current_position pit_lap pit_time
         average_lap_time d1 total_cars sector)
    \<le> rr_time_lost (simulate_pit_rejoin driver_id current_position pit_lap pit_time
         average_lap_time d2 total_cars sector))
   \<and> (\<bar>pit_time\<bar> \<le> 2 ^ 40 \<longrightarrow>
      rr_time_lost (simulate_pit_rejoin driver_id current_position pit_lap pit_time
         average_lap_time 0 total_cars sector)
    < rr_time_lost (simulate_pit_rejoin driver_id current_position pit_lap pit_time
         average_lap_time (rnd 0.9) total_cars sector))"
  unfolding time_lost_eq using time_lost_mono time_lost_strict by blast

theorem C9_time_lost_nondecreasing_witness:
  "rnd 0.6 \<le> rnd 0.9
   \<and> rr_time_lost (simulate_pit_rejoin ''driver_1'' 5 20 22 95 (rnd 0.6) 20 ''S2'')
       \<le> rr_time_lost (simulate_pit_rejoin ''driver_1'' 5 20 22 95 (rnd 0.9) 20 ''S2'')
   \<and> \<bar>22 :: real\<bar> \<le> 2 ^ 40
   \<and> rr_time_lost (simulate_pit_rejoin ''driver_1'' 5 20 22 95 0 20 ''S2'')
       < rr_time_lost (simulate_pit_rejoin ''driver_1'' 5 20 22 95 (rnd 0.9) 20 ''S2'')
   \<and> rr_time_lost (simulate_pit_rejoin ''driver_1'' 5 20 22 95 0 20 ''S2'') = rnd 23.8
   \<and> rr_time_lost (simulate_pit_rejoin ''driver_1'' 5 20 22 95 (rnd 0.9) 20 ''S2'')
       = rnd 24.61"
proof -
  have le: "rnd 0.6 \<le> rnd 0.9" unfolding rnd_literals by simp
  have b: "\<bar>22 :: real\<bar> \<le> 2 ^ 40" by simp
  from C9_time_lost_nondecreasing
    [of "rnd 0.6" "rnd 0.9" "''driver_1''" 5 20 22 95 20 "''S2''"] le b
  show ?thesis by (simp only: time_lost_eq time_lost_examples time_lost_zero_example)
qed



section \<open>Results: driver twin\<close>

lemma clamp_npfloat:
  "0 < c \<Longrightarrow> py_max (Fin 0) (py_min r (Fin c)) =
     Fin (case r of Fin x \<Rightarrow> max 0 (min x c) | PosInf \<Rightarrow> c | _ \<Rightarrow> 0)"
  by (cases r) (simp_all add: py_max_def py_min_def max_def min_def)

lemma clamp_npfloat_range:
  "0 < c \<Longrightarrow> 0 \<le> fin_value (py_max (Fin 0) (py_min r (Fin c)))
     \<and> fin_value (py_max (Fin 0) (py_min r (Fin c))) \<le> c"
  by (cases r) (simp_all add: clamp_npfloat fin_value_def)

lemma fallback_rate_finite:
  "fallback_rate base_pace lap_times = Fin (fin_value (fallback_rate base_pace lap_times))"
  by (simp add: fallback_rate_def Let_def clamp_npfloat fin_value_def)

lemma fallback_rate_range:
  "0 \<le> fin_value (fallback_rate base_pace lap_times)
   \<and> fin_value (fallback_rate base_pace lap_times) \<le> 0.01"
  using clamp_npfloat_range [of "0.01"] by (simp add: fallback_rate_def Let_def)

lemma clip_range: "lo \<le> hi \<Longrightarrow> lo \<le> clip x lo hi \<and> clip x lo hi \<le> hi"
  by (simp add: clip_def)

lemma consistency_range: "0 \<le> calculate_consistency_index xs \<and> calculate_consistency_index xs \<le> 1"
  by (simp add: calculate_consistency_index_def Let_def clip_range)

lemma confidence_range: "0 \<le> calculate_confidence n \<and> calculate_confidence n \<le> 1"
  by (simp add: calculate_confidence_def)

lemma np_clip_range: "r \<noteq> NaN \<Longrightarrow> lo \<le> hi \<Longrightarrow> in_range (np_clip r lo hi) lo hi"
  by (cases r) (simp_all add: min_def max_def)

lemma np_div_NaN: "np_div x y = NaN \<longleftrightarrow> x = 0 \<and> y = 0"
  by (simp add: np_div_def)

lemma pace_range: 
  assumes "fold min ts t \<noteq> 0 \<or> np_mean (t # ts) \<noteq> 0"
  shows "in_range (calculate_pace_vector (t # ts)) (-0.1) 0.1"
proof (cases "ts = []")
  case True then show ?thesis by (simp add: calculate_pace_vector_def)
next
  case False
  have "np_div (np_mean (t # ts) - fold min ts t) (fold min ts t) \<noteq> NaN"
    using assms by (auto simp: np_div_NaN)
  then have "in_range (np_clip (np_div (np_mean (t # ts) - fold min ts t) (fold min ts t)) (-0.1) 0.1) (-0.1) 0.1"
    by (rule np_clip_range) simp
  with False show ?thesis by (simp add: calculate_pace_vector_def Let_def)
qed

lemma dp_rate_eq:
  "3 \<le> length lap_times \<Longrightarrow>
   dp_rate (calculate_degradation_profile sp lap_times c) =
     min (max 0 (fst (fit_degradation sp (np_mean (take 3 lap_times)) lap_times))) 0.01
       * compound_multipliers c"
  by (simp add: calculate_degradation_profile_def Let_def split_beta min_def)

lemma dp_rate_short:
  "length lap_times < 3 \<Longrightarrow> dp_rate (calculate_degradation_profile sp lap_times c) = 0.002"
  by (simp add: calculate_degradation_profile_def)

lemma dp_rate_bound:
  "0 \<le> m \<Longrightarrow> compound_multipliers c = m \<Longrightarrow> 0.002 \<le> 0.01 * m \<Longrightarrow>
   dp_rate (calculate_degradation_profile sp lap_times c) \<le> 0.01 * m"
proof (cases "length lap_times < 3")
  case True
  assume "0.002 \<le> 0.01 * m"
  with True show ?thesis by (simp add: dp_rate_short)
next
  case False
  assume m: "0 \<le> m" "compound_multipliers c = m"
  have "min (max 0 (fst (fit_degradation sp (np_mean (take 3 lap_times)) lap_times))) 0.01 \<le> (0.01::real)"
    by simp
  then have "min (max 0 (fst (fit_degradation sp (np_mean (take 3 lap_times)) lap_times))) 0.01 * m \<le> 0.01 * m"
    using m(1) by (rule mult_right_mono)
  with False m show ?thesis by (simp add: dp_rate_eq)
qed

lemma soft_example:
  "dp_rate (calculate_degradation_profile no_scipy [90, 90, 100] ''SOFT'') = 0.015"
  by (simp add: dp_rate_eq fit_degradation_def no_scipy_def fallback_rate_def np_div_def
      np_mean_def py_max_def py_min_def fin_value_def compound_multipliers_def)

text \<open>
  Claim C5: in \<open>_calculate_degradation_profile\<close> (three laps or more) the fitted rate is
  clamped to \<open>[0, 0.01]\<close> and then multiplied by the compound multiplier (SOFT 1.5,
  MEDIUM 1.0, HARD 0.7, any other compound 1.0). Some SOFT input returns a rate above
  0.01 (laps 90, 90, 100 without scipy give 0.015), no SOFT input returns more than
  0.015, and no MEDIUM or HARD input returns more than 0.01.
\<close>

theorem C5_rate_clamped_then_multiplied:
  "(3 \<le> length lap_times \<longrightarrow>
      dp_rate (calculate_degradation_profile sp lap_times c) =
        min (max 0 (fst (fit_degradation sp (np_mean (take 3 lap_times)) lap_times))) 0.01
          * compound_multipliers c)
   \<and> compound_multipliers ''SOFT'' = 1.5 \<and> compound_multipliers ''MEDIUM'' = 1.0
   \<and> compound_multipliers ''HARD'' = 0.7
   \<and> (c \<noteq> ''SOFT'' \<and> c \<noteq> ''MEDIUM'' \<and> c \<noteq> ''HARD'' \<longrightarrow> compound_multipliers c = 1.0)
   \<and> dp_rate (calculate_degradation_profile no_scipy [90, 90, 100] ''SOFT'') > 0.01
   \<and> dp_rate (calculate_degradation_profile sp lap_times ''SOFT'') \<le> 0.015
   \<and> dp_rate (calculate_degradation_profile sp lap_times ''MEDIUM'') \<le> 0.01
   \<and> dp_rate (calculate_degradation_profile sp lap_times ''HARD'') \<le> 0.01"
  using dp_rate_bound [of "1.5" "''SOFT''" sp lap_times]
        dp_rate_bound [of "1" "''MEDIUM''" sp lap_times]
        dp_rate_bound [of "0.7" "''HARD''" sp lap_times]
        dp_rate_eq [of lap_times sp c]
  by (simp add: soft_example compound_multipliers_def)

theorem C5_rate_clamped_then_multiplied_witness:
  "3 \<le> length [90, 90, 100 :: real]
   \<and> ''SOFT'' \<noteq> ''MEDIUM''
   \<and> fst (fit_degradation no_scipy (np_mean (take 3 [90, 90, 100])) [90, 90, 100]) = 0.01
   \<and> dp_rate (calculate_degradation_profile no_scipy [90, 90, 100] ''SOFT'') = 0.01 * 1.5
   \<and> dp_rate (calculate_degradation_profile no_scipy [90, 90, 100] ''XYZ'') = 0.01"
  using C5_rate_clamped_then_multiplied [of "[90, 90, 100]" no_scipy "''SOFT''"]
        C5_rate_clamped_then_multiplied [of "[90, 90, 100]" no_scipy "''XYZ''"]
  by (simp add: fit_degradation_def no_scipy_def fallback_rate_def np_div_def
      np_mean_def py_max_def py_min_def fin_value_def)

lemma fold_min_le: "fold min ts (t::real) \<le> t \<and> (\<forall>x\<in>set ts. fold min ts t \<le> x)"
proof (induction ts arbitrary: t)
  case Nil then show ?case by simp
next
  case (Cons a ts)
  from Cons.IH [of "min a t"] show ?case by (auto simp: min_def split: if_splits)
qed

lemma sum_list_pos_real:
  fixes xs :: "real list"
  assumes "\<forall>x\<in>set xs. 0 \<le> x" "\<exists>x\<in>set xs. x \<noteq> 0"
  shows "0 < sum_list xs"
  using assms
proof (induction xs)
  case Nil then show ?case by simp
next
  case (Cons a xs)
  show ?case
  proof (cases "a = 0")
    case True
    with Cons show ?thesis by auto
  next
    case False
    with Cons.prems have "0 < a" by auto
    moreover have "0 \<le> sum_list xs" using Cons.prems by (auto intro: sum_list_nonneg)
    ultimately show ?thesis by simp
  qed
qed

lemma not_all_zero_pace:
  assumes "\<exists>x\<in>set (t # ts). x \<noteq> 0"
  shows "fold min ts t \<noteq> 0 \<or> np_mean (t # ts) \<noteq> 0"
proof (cases "fold min ts t = 0")
  case False then show ?thesis by simp
next
  case True
  with fold_min_le [of ts t] have "\<forall>x\<in>set (t # ts). 0 \<le> x" by simp
  then have "0 < sum_list (t # ts)" using assms by (rule sum_list_pos_real)
  then show ?thesis by (simp add: np_mean_def)
qed

lemma twin_ranges:
  "0 \<le> dt_consistency_index (generate_driver_twin sp d lap_times c cl)
   \<and> dt_consistency_index (generate_driver_twin sp d lap_times c cl) \<le> 1
   \<and> 0 \<le> dt_confidence (generate_driver_twin sp d lap_times c cl)
   \<and> dt_confidence (generate_driver_twin sp d lap_times c cl) \<le> 1
   \<and> ((\<exists>x\<in>set lap_times. x \<noteq> 0) \<or> length lap_times < 5 \<longrightarrow>
        in_range (dt_pace_vector (generate_driver_twin sp d lap_times c cl)) (-0.1) 0.1)"
proof -
  have pv: "in_range (calculate_pace_vector lap_times) (-0.1) 0.1" if "\<exists>x\<in>set lap_times. x \<noteq> 0"
  proof (cases lap_times)
    case Nil with that show ?thesis by simp
  next
    case (Cons t ts)
    with that show ?thesis using pace_range[OF not_all_zero_pace, of t ts] by simp
  qed
  show ?thesis
    using consistency_range[of lap_times] confidence_range[of "length lap_times"] pv
    by (auto simp: generate_driver_twin_def generate_default_twin_def)
qed

text \<open>
  Claim C7 at five laps of 0.0 seconds: best lap and mean are both zero, the numpy division
  \<open>0.0 / 0.0\<close> is \<open>nan\<close>, \<open>np.clip\<close> keeps it, and the returned \<open>pace_vector\<close> is \<open>nan\<close>,
  outside \<open>[-0.1, 0.1]\<close>. (\<open>_calculate_consistency_index\<close> guards the zero mean;
  \<open>_calculate_pace_vector\<close> does not guard the zero best lap.) Lemma \<open>twin_ranges\<close> above
  gives the three ranges for every other input.
\<close>

theorem C7_pace_vector_nan_on_zero_laps:
  "dt_pace_vector (generate_driver_twin sp driver_id [0, 0, 0, 0, 0] tire_compound current_lap)
     = NaN
   \<and> in_range (dt_pace_vector
         (generate_driver_twin sp driver_id [0, 0, 0, 0, 0] tire_compound current_lap))
       (-0.1) 0.1 = False"
  by (simp add: generate_driver_twin_def calculate_pace_vector_def np_mean_def np_div_def)

section \<open>Results: pit decision engine\<close>

lemma analyze_degradation_factor_wired:
  "analyze_degradation_factor degradation_TireDegradationModel tire_age tire_compound
     degradation_rate current_lap total_laps driver_twin = Inl AttributeError"
  by (simp add: analyze_degradation_factor_def degradation_TireDegradationModel_def construct_def)

text \<open>
  Claim C1 on the code as it is wired: \<open>_analyze_degradation_factor\<close> builds a
  \<open>degradation.TireDegradationModel\<close> and calls \<open>calculate_degradation\<close> on it, a method
  that class does not define, so every call of \<open>make_pit_decision\<close> raises
  \<open>AttributeError\<close> before any factor is scored; no decision is returned, with or
  without the optional inputs.
\<close>

theorem C1_make_pit_decision_raises:
  "make_pit_decision driver_id current_lap total_laps tire_age tire_compound current_position
     degradation_rate traffic_density race_twin driver_twin opponent_data weather_data
   = Inl AttributeError"
  by (simp add: make_pit_decision_def make_pit_decision_with_def analyze_degradation_factor_wired)

lemma make_decision_critical:
  "df_urgency df = ''critical'' \<Longrightarrow>
   dr_decision (make_decision df tf rtf opf wef conf clap tlaps tage) = ''PIT_NOW''"
  by (simp add: make_decision_def)

lemma make_decision_cases:
  "dr_decision (make_decision df tf rtf opf wef conf clap tlaps tage)
     \<in> {''PIT_NOW'', ''PIT_LATER'', ''EXTEND_STINT''}"
  by (simp add: make_decision_def Let_def split: option.split)

lemma analyze_degradation_urgency:
  assumes "analyze_degradation_factor cls tire_age tire_compound degradation_rate current_lap
             total_laps driver_twin = Inr df"
  shows "(df_urgency df = ''critical'') = (df_current_degradation df \<ge> 0.05)"
    and "\<exists>m. calculate_degradation_method cls = Some m
             \<and> df_current_degradation df = m tire_age tire_compound 25"
  using assms
  by (auto simp: analyze_degradation_factor_def Let_def split: sum.splits option.splits if_splits)

lemma make_pit_decision_with_Inr:
  assumes "make_pit_decision_with cls driver_id current_lap total_laps tire_age tire_compound
             current_position degradation_rate traffic_density race_twin driver_twin
             opponent_data weather_data = Inr out"
  obtains df tf where
    "analyze_degradation_factor cls tire_age tire_compound degradation_rate current_lap
       total_laps driver_twin = Inr df"
    "analyze_traffic_factor current_position traffic_density current_lap total_laps driver_id
       = Inr tf"
    "pdc_decision out =
       dr_decision (make_decision df tf
         (analyze_race_twin_factor race_twin driver_id current_lap total_laps)
         (analyze_opponent_factor opponent_data current_lap tire_age driver_id)
         (analyze_weather_factor weather_data tire_compound)
         (pdc_confidence out) current_lap total_laps tire_age)"
    "pdc_confidence out =
       calculate_confidence_score df tf
         (analyze_race_twin_factor race_twin driver_id current_lap total_laps)
         (analyze_opponent_factor opponent_data current_lap tire_age driver_id)
         (analyze_weather_factor weather_data tire_compound)"
    "fb_degradation_urgency (pdc_factor_breakdown out) = df_urgency df"
    "fb_current_degradation (pdc_factor_breakdown out) = df_current_degradation df"
  using assms
  by (auto simp: make_pit_decision_with_def Let_def generate_factor_breakdown_def
      split: sum.splits)

lemma pipeline_critical:
  assumes "make_pit_decision_with cls driver_id current_lap total_laps tire_age tire_compound
             current_position degradation_rate traffic_density race_twin driver_twin
             opponent_data weather_data = Inr out"
  shows "(fb_degradation_urgency (pdc_factor_breakdown out) = ''critical''
            \<longleftrightarrow> fb_current_degradation (pdc_factor_breakdown out) \<ge> 0.05)
         \<and> (fb_current_degradation (pdc_factor_breakdown out) \<ge> 0.05
            \<longrightarrow> pdc_decision out = ''PIT_NOW'')"
proof -
  from assms obtain df tf where
    df: "analyze_degradation_factor cls tire_age tire_compound degradation_rate current_lap
       total_laps driver_twin = Inr df"
    and dec: "pdc_decision out =
       dr_decision (make_decision df tf
         (analyze_race_twin_factor race_twin driver_id current_lap total_laps)
         (analyze_opponent_factor opponent_data current_lap tire_age driver_id)
         (analyze_weather_factor weather_data tire_compound)
         (pdc_confidence out) current_lap total_laps tire_age)"
    and urg: "fb_degradation_urgency (pdc_factor_breakdown out) = df_urgency df"
    and cur: "fb_current_degradation (pdc_factor_breakdown out) = df_current_degradation df"
    by (rule make_pit_decision_with_Inr)
  from analyze_degradation_urgency(1) [OF df]
  have iff: "(df_urgency df = ''critical'') = (df_current_degradation df \<ge> 0.05)" .
  show ?thesis
    using iff dec urg cur by (simp add: make_decision_critical)
qed


lemma confidence_score_range:
  "0 \<le> calculate_confidence_score df tf rtf opf wef
   \<and> calculate_confidence_score df tf rtf opf wef \<le> 1"
  by (simp add: calculate_confidence_score_def Let_def)

lemma neutral_factors:
  "rtf_score (analyze_race_twin_factor None d cl tls) = 0.5"
  "rtf_available (analyze_race_twin_factor None d cl tls) = False"
  "of_score (analyze_opponent_factor None cl ta d) = 0.5"
  "of_available (analyze_opponent_factor None cl ta d) = False"
  "wf_score (analyze_weather_factor None c) = 0.5"
  "wf_available (analyze_weather_factor None c) = False"
  by (simp_all add: analyze_race_twin_factor_def analyze_opponent_factor_def
      analyze_weather_factor_def unavailable_opponent_factor_def)

lemma make_pit_decision_with_method:
  assumes "''compound'' \<in> set (init_keywords cls)"
    and "calculate_degradation_method cls = Some m"
    and "total_laps \<noteq> 0"
  shows "\<exists>out. make_pit_decision_with cls driver_id current_lap total_laps tire_age
             tire_compound current_position degradation_rate traffic_density race_twin
             driver_twin opponent_data weather_data = Inr out
           \<and> pdc_decision out \<in> {''PIT_NOW'', ''PIT_LATER'', ''EXTEND_STINT''}
           \<and> 0 \<le> pdc_confidence out \<and> pdc_confidence out \<le> 1
           \<and> (race_twin = None \<longrightarrow>
                 be_score (fb_race_twin (pdc_factor_breakdown out)) = 0.5
                 \<and> be_available (fb_race_twin (pdc_factor_breakdown out)) = Some False)
           \<and> (opponent_data = None \<longrightarrow>
                 be_score (fb_opponent (pdc_factor_breakdown out)) = 0.5
                 \<and> be_available (fb_opponent (pdc_factor_breakdown out)) = Some False)
           \<and> (weather_data = None \<longrightarrow>
                 be_score (fb_weather (pdc_factor_breakdown out)) = 0.5
                 \<and> be_available (fb_weather (pdc_factor_breakdown out)) = Some False)"
proof -
  obtain df where df: "analyze_degradation_factor cls tire_age tire_compound degradation_rate
      current_lap total_laps driver_twin = Inr df"
    using assms(1,2) by (simp add: analyze_degradation_factor_def construct_def Let_def split_beta)
  obtain tf where tf: "analyze_traffic_factor current_position traffic_density current_lap
      total_laps driver_id = Inr tf"
    using assms(3) by (simp add: analyze_traffic_factor_def Let_def split_beta)
  show ?thesis
    using make_decision_cases confidence_score_range
    by (simp add: make_pit_decision_with_def df tf Let_def generate_factor_breakdown_def
        neutral_factors)
qed

lemma make_pit_decision_zero_laps:
  assumes "''compound'' \<in> set (init_keywords cls)"
    and "calculate_degradation_method cls = Some m"
  shows "make_pit_decision_with cls driver_id current_lap 0 tire_age
             tire_compound current_position degradation_rate traffic_density race_twin
             driver_twin opponent_data weather_data = Inl ZeroDivisionError"
proof -
  obtain df where df: "analyze_degradation_factor cls tire_age tire_compound degradation_rate
      current_lap 0 driver_twin = Inr df"
    using assms(1,2) by (simp add: analyze_degradation_factor_def construct_def Let_def split_beta)
  show ?thesis
    by (simp add: make_pit_decision_with_def df analyze_traffic_factor_def Let_def split_beta)
qed

section \<open>Results: one Monte Carlo iteration\<close>

lemma keys_dict_set:
  "map fst (dict_set d k v) = (if k \<in> set (map fst d) then map fst d else map fst d @ [k])"
  by (induction d k v rule: dict_set.induct) auto

lemma keys_dict_update [simp]: "map fst (dict_update d k f) = map fst d"
  by (induction d) (auto simp: dict_update_def)

lemma keys_fold_dict_set:
  "distinct (map fst d) \<Longrightarrow>
   distinct (map fst (fold (\<lambda>x d. dict_set d (key x) (val x)) xs d))
   \<and> set (map fst (fold (\<lambda>x d. dict_set d (key x) (val x)) xs d))
       = set (map fst d) \<union> set (map key xs)"
proof (induction xs arbitrary: d)
  case Nil then show ?case by simp
next
  case (Cons x xs)
  have "distinct (map fst (dict_set d (key x) (val x)))"
    using Cons.prems by (simp add: keys_dict_set)
  from Cons.IH [OF this] show ?case
    by (auto simp: keys_dict_set split: if_splits)
qed

lemma keys_initial_race_state:
  "distinct (map fst (initial_race_state drivers driver_twins))"
  "set (map fst (initial_race_state drivers driver_twins)) = set (map dr_id drivers)"
  unfolding initial_race_state_def
  using keys_fold_dict_set [of "[]" dr_id _ drivers] by simp_all

lemma keys_simulate_overtakes:
  "simulate_overtakes driver_id state d lap g = Inr (d', g') \<Longrightarrow> map fst d' = map fst d"
  by (auto simp: simulate_overtakes_def Let_def split: if_splits option.splits prod.splits)

lemma keys_driver_step:
  assumes "driver_step cls total_cars lap total_laps weather_data opts driver_id (d, g) = Inr (d', g')"
  shows "map fst d' = map fst d"
  using assms
  by (auto simp: driver_step_def Let_def
      split: sum.splits option.splits prod.splits if_splits
      dest!: keys_simulate_overtakes)

lemma fold_err_invariant:
  assumes "\<And>x s s'. f x s = Inr s' \<Longrightarrow> P s \<Longrightarrow> P s'"
    and "fold_err f xs s = Inr s'" and "P s"
  shows "P s'"
  using assms(2,3)
proof (induction xs arbitrary: s)
  case Nil then show ?case by simp
next
  case (Cons x xs)
  then show ?case by (auto split: sum.splits intro: assms(1))
qed

lemma keys_rerank [simp]: "map fst (rerank d) = map fst d"
proof -
  have "map fst (fold (\<lambda>(new_pos, (did, s)) d'. dict_update d' did (\<lambda>s'. s'\<lparr>rs_position := new_pos\<rparr>)) ps d) = map fst d"
    for ps :: "(int \<times> string \<times> race_state) list"
    by (induction ps arbitrary: d) (auto simp: split_beta)
  then show ?thesis by (simp add: rerank_def Let_def)
qed

lemma keys_simulate_lap:
  assumes "simulate_lap cls total_cars total_laps weather_data opts lap (d, g) = Inr (d', g')"
  shows "map fst d' = map fst d"
proof -
  from assms obtain d1 g1 where
    f: "fold_err (driver_step cls total_cars lap total_laps weather_data opts) (map fst d) (d, g)
          = Inr (d1, g1)"
    and d': "d' = rerank d1"
    by (auto simp: simulate_lap_def split: sum.splits)
  have "map fst (fst (d1, g1)) = map fst d"
    by (rule fold_err_invariant [where P = "\<lambda>s. map fst (fst s) = map fst d", OF _ f])
       (auto dest: keys_driver_step)
  with d' show ?thesis by simp
qed

lemma keys_laps:
  assumes "fold_err (simulate_lap cls total_cars total_laps weather_data opts) laps (d, g)
             = Inr (d', g')"
  shows "map fst d' = map fst d"
proof -
  have "map fst (fst (d', g')) = map fst d"
    by (rule fold_err_invariant [where P = "\<lambda>s. map fst (fst s) = map fst d", OF _ assms])
       (auto dest: keys_simulate_lap)
  then show ?thesis by simp
qed

lemma mset_map_fst_sort_key: "mset (map fst (sort_key f xs)) = mset (map fst xs)"
  by (metis mset_map mset_sort)

lemma finishing_order_keys:
  assumes "simulate_single_race_with cls drivers driver_twins total_laps current_lap
             weather_data opts g = Inr (res, g')"
  shows "mset (sr_finishing_order res) = mset (map fst (initial_race_state drivers driver_twins))"
proof -
  from assms obtain d' where
    f: "fold_err (simulate_lap cls (int (length drivers)) total_laps weather_data opts)
          [current_lap .. total_laps] (initial_race_state drivers driver_twins, g) = Inr (d', g')"
    and res: "sr_finishing_order res =
          map fst (sort_key snd (map (\<lambda>(driver_id, state). (driver_id, rs_total_time state)) d'))"
    by (auto simp: simulate_single_race_with_def Let_def split: sum.splits)
  have k: "map fst (map (\<lambda>(driver_id, state). (driver_id, rs_total_time state)) d') = map fst d'"
    by (induction d') auto
  have "mset (sr_finishing_order res) =
        mset (map fst (map (\<lambda>(driver_id, state). (driver_id, rs_total_time state)) d'))"
    unfolding res by (rule mset_map_fst_sort_key)
  then have "mset (sr_finishing_order res) = mset (map fst d')"
    by (simp only: k)
  with keys_laps [OF f] show ?thesis by simp
qed

lemma finishing_order_distinct_ids:
  assumes "simulate_single_race_with cls drivers driver_twins total_laps current_lap
             weather_data opts g = Inr (res, g')"
  shows "distinct (sr_finishing_order res)"
    and "set (sr_finishing_order res) = set (map dr_id drivers)"
proof -
  let ?K = "map fst (initial_race_state drivers driver_twins)"
  from finishing_order_keys [OF assms]
  have m: "mset (sr_finishing_order res) = mset ?K" .
  show "distinct (sr_finishing_order res)"
    using m keys_initial_race_state(1) [of drivers driver_twins]
    by (metis mset_eq_imp_distinct_iff)
  show "set (sr_finishing_order res) = set (map dr_id drivers)"
    using m keys_initial_race_state(2) [of drivers driver_twins]
    by (metis mset_eq_setD)
qed

text \<open>
  Whenever one iteration returns a result, for whichever class the name
  \<open>TireDegradationModel\<close> is bound to, for every driver list, twins, weather, strategy and
  random stream, \<open>finishing_order\<close> has no duplicates and lists exactly the driver ids of
  the input: it is a permutation of the distinct input ids.
\<close>

lemma finishing_order_permutation:
  assumes "simulate_single_race_with cls drivers driver_twins total_laps current_lap
             weather_data opts g = Inr (res, g')"
  shows "distinct (sr_finishing_order res)
         \<and> set (sr_finishing_order res) = set (map dr_id drivers)
         \<and> mset (sr_finishing_order res) = mset (remdups (map dr_id drivers))"
proof -
  note d = finishing_order_distinct_ids(1) [OF assms]
  note s = finishing_order_distinct_ids(2) [OF assms]
  from d s have "mset (sr_finishing_order res) = mset (remdups (map dr_id drivers))"
    by (metis distinct_remdups set_eq_iff_mset_eq_distinct set_remdups)
  with d s show ?thesis by simp
qed

lemma driver_step_wired:
  "\<exists>e. driver_step degradation_TireDegradationModel total_cars lap total_laps weather_data
         opts driver_id dg = Inl e"
  by (cases dg)
     (auto simp: driver_step_def degradation_TireDegradationModel_def Let_def
       split: sum.splits prod.splits)

lemma simulate_single_race_raises:
  assumes "drivers \<noteq> []" and "current_lap \<le> total_laps"
  shows "\<exists>e. simulate_single_race drivers driver_twins total_laps current_lap weather_data
             opts g = Inl e"
proof -
  let ?d = "initial_race_state drivers driver_twins"
  from assms(1) keys_initial_race_state(2) [of drivers driver_twins]
  have "map fst ?d \<noteq> []" by (cases drivers) auto
  then obtain k ks where ks: "map fst ?d = k # ks" by (cases "map fst ?d") auto
  from assms(2) have laps: "[current_lap .. total_laps] = current_lap # [current_lap + 1 .. total_laps]"
    by (simp add: upto_rec1)
  obtain e where e: "driver_step degradation_TireDegradationModel (int (length drivers))
      current_lap total_laps weather_data opts k (?d, g) = Inl e"
    using driver_step_wired by blast
  have "simulate_lap degradation_TireDegradationModel (int (length drivers)) total_laps
          weather_data opts current_lap (?d, g) = Inl e"
    by (simp add: simulate_lap_def ks e)
  then show ?thesis
    by (simp add: simulate_single_race_def simulate_single_race_with_def laps)
qed

text \<open>
  Claim C2 on the code as it is wired, at the example of \<open>race_twin.py\<close> itself: the first
  driver's lap time is computed, then \<open>self.degradation_model.calculate_degradation\<close> is
  looked up on a \<open>degradation.TireDegradationModel\<close>, which has no such method, and the
  iteration raises \<open>AttributeError\<close>, whatever the random stream: no result and no
  \<open>finishing_order\<close> is produced. Lemma \<open>simulate_single_race_raises\<close> above shows the same
  for every non-empty driver list with a lap left to simulate.
\<close>

theorem C2_simulate_single_race_raises_on_example:
  "simulate_single_race main_drivers main_twins 50 10 None None g = Inl AttributeError"
proof -
  have laps: "[10 .. 50] = (10::int) # [11 .. 50]" by (simp add: upto_rec1)
  have step: "driver_step degradation_TireDegradationModel 2 10 50 None None ''driver_1''
      (initial_race_state main_drivers main_twins, g) = Inl AttributeError"
    by (simp add: driver_step_def initial_race_state_def main_drivers_def main_twins_def
        dict_get_def calculate_lap_time_def construct_def degradation_TireDegradationModel_def
        calculate_traffic_penalty_def random_normal_def draw_def Let_def split_beta)
  have keys: "map fst (initial_race_state main_drivers main_twins) = [''driver_1'', ''driver_2'']"
    by (simp add: initial_race_state_def main_drivers_def)
  have "simulate_lap degradation_TireDegradationModel 2 50 None None 10
          (initial_race_state main_drivers main_twins, g) = Inl AttributeError"
    by (simp add: simulate_lap_def keys step)
  moreover have "int (length main_drivers) = 2" by (simp add: main_drivers_def)
  ultimately show ?thesis
    by (simp add: simulate_single_race_def simulate_single_race_with_def laps)
qed

lemma example_run_no_laps:
  "\<exists>res. simulate_single_race example_drivers example_twins 0 1 None None example_rng
            = Inr (res, example_rng)
     \<and> sr_finishing_order res = [''A'', ''B'']"
  by (simp add: simulate_single_race_def simulate_single_race_with_def initial_race_state_def
      example_drivers_def Let_def)

lemma finishing_order_permutation_example:
  "\<exists>res g'. simulate_single_race example_drivers example_twins 0 1 None None example_rng
       = Inr (res, g')
     \<and> sr_finishing_order res = [''A'', ''B'']
     \<and> distinct (sr_finishing_order res)
     \<and> set (sr_finishing_order res) = set (map dr_id example_drivers)"
proof -
  obtain res0 where run0:
    "simulate_single_race_with degradation_TireDegradationModel example_drivers
       example_twins 0 1 None None example_rng = Inr (res0, example_rng)"
    and order0: "sr_finishing_order res0 = [''A'', ''B'']"
    using example_run_no_laps unfolding simulate_single_race_def by blast
  from finishing_order_permutation [OF run0] run0 order0
  show ?thesis unfolding simulate_single_race_def by blast
qed

lemma simulate_single_race_no_laps:
  assumes "total_laps < current_lap"
  shows "\<exists>res. simulate_single_race drivers driver_twins total_laps current_lap weather_data
             opts g = Inr (res, g)"
  using assms by (simp add: simulate_single_race_def simulate_single_race_with_def Let_def)

section \<open>Results: the position histogram\<close>

lemma len_of_positions_append:
  "len_of (positions_append dp k p) k' = len_of dp k' + (if k = k' then 1 else 0)"
  by (induction dp k p rule: positions_append.induct) (auto simp: len_of_def)

lemma keys_positions_append:
  "map fst (positions_append dp k p) = (if k \<in> set (map fst dp) then map fst dp else map fst dp @ [k])"
  by (induction dp k p rule: positions_append.induct) auto

lemma nonempty_positions_append:
  "\<forall>(k, ps) \<in> set dp. ps \<noteq> [] \<Longrightarrow> \<forall>(k, ps) \<in> set (positions_append dp k' p). ps \<noteq> []"
  by (induction dp k' p rule: positions_append.induct) auto

lemma dp_inv_append: "dp_inv dp \<Longrightarrow> dp_inv (positions_append dp k p)"
  using nonempty_positions_append [of dp k p]
  by (auto simp: dp_inv_def keys_positions_append)

lemma fold_order:
  "dp_inv dp \<Longrightarrow>
   dp_inv (fold (\<lambda>(pos, driver_id) dp. positions_append dp driver_id pos) zs dp)
   \<and> len_of (fold (\<lambda>(pos, driver_id) dp. positions_append dp driver_id pos) zs dp) k
       = len_of dp k + count_list (map snd zs) k"
proof (induction zs arbitrary: dp)
  case Nil then show ?case by simp
next
  case (Cons z zs)
  obtain pos did where z: "z = (pos, did)" by (cases z)
  from Cons.prems have "dp_inv (positions_append dp did pos)" by (rule dp_inv_append)
  from Cons.IH [OF this] show ?case
    by (simp add: z len_of_positions_append)
qed

lemma map_snd_enumerate1: "map snd (enumerate1 xs) = xs"
proof -
  have "length (map int [1 ..< Suc (length xs)]) = length xs"
    by (cases xs) (simp_all del: upt_Suc)
  then show ?thesis unfolding enumerate1_def by (rule map_snd_zip)
qed

lemma fold_results:
  "dp_inv dp \<Longrightarrow>
   dp_inv (fold (\<lambda>result driver_positions.
             fold (\<lambda>(pos, driver_id) dp. positions_append dp driver_id pos)
                  (enumerate1 (sr_finishing_order result)) driver_positions) rs dp)
   \<and> len_of (fold (\<lambda>result driver_positions.
             fold (\<lambda>(pos, driver_id) dp. positions_append dp driver_id pos)
                  (enumerate1 (sr_finishing_order result)) driver_positions) rs dp) k
       = len_of dp k + sum_list (map (\<lambda>r. count_list (sr_finishing_order r) k) rs)"
proof (induction rs arbitrary: dp)
  case Nil then show ?case by simp
next
  case (Cons r rs)
  let ?dp = "fold (\<lambda>(pos, driver_id) dp. positions_append dp driver_id pos)
                  (enumerate1 (sr_finishing_order r)) dp"
  from fold_order [OF Cons.prems, of "enumerate1 (sr_finishing_order r)" k]
  have inv: "dp_inv ?dp" and len: "len_of ?dp k = len_of dp k + count_list (sr_finishing_order r) k"
    by (simp_all add: map_snd_enumerate1)
  from Cons.IH [OF inv] len show ?case by simp
qed

lemma collect_positions_props:
  "dp_inv (collect_positions results)"
  "len_of (collect_positions results) k
     = sum_list (map (\<lambda>r. count_list (sr_finishing_order r) k) results)"
  using fold_results [of "[]" results k]
  by (simp_all add: collect_positions_def dp_inv_def len_of_def)

lemma count_list_distinct:
  "distinct xs \<Longrightarrow> count_list xs x = (if x \<in> set xs then 1 else 0)"
  by (induction xs) auto

lemma entry_length:
  assumes "\<forall>r \<in> set results. distinct (sr_finishing_order r) \<and> set (sr_finishing_order r) = ids"
    and "(k, ps) \<in> set (collect_positions results)"
  shows "length ps = length results \<and> ps \<noteq> []"
proof -
  from collect_positions_props(1) [of results] assms(2)
  have ne: "ps \<noteq> []" and m: "map_of (collect_positions results) k = Some ps"
    by (auto simp: dp_inv_def)
  then have "length ps = len_of (collect_positions results) k" by (simp add: len_of_def)
  also have "\<dots> = sum_list (map (\<lambda>r. count_list (sr_finishing_order r) k) results)"
    by (rule collect_positions_props(2))
  also have "\<dots> = sum_list (map (\<lambda>r. if k \<in> ids then 1 else 0) results)"
    using assms(1) by (intro arg_cong [where f = sum_list] map_cong) (auto simp: count_list_distinct)
  also have "\<dots> = (if k \<in> ids then length results else 0)"
    by (simp add: sum_list_replicate map_replicate_const)
  finally have "length ps = (if k \<in> ids then length results else 0)" .
  with ne show ?thesis by (auto split: if_splits)
qed

lemma sum_counter_add: "sum_list (map snd (counter_add c x)) = Suc (sum_list (map snd c))"
  by (induction c x rule: counter_add.induct) auto

lemma sum_Counter: "sum_list (map snd (Counter xs)) = length xs"
proof -
  have "sum_list (map snd (fold (\<lambda>x c. counter_add c x) xs c)) = length xs + sum_list (map snd c)" for c
    by (induction xs arbitrary: c) (auto simp: sum_counter_add)
  from this [of "[]"] show ?thesis by (simp add: Counter_def)
qed

lemma distribution_sum:
  "sum_list (map snd (map (\<lambda>(pos, count). (pos, real count / real n)) c))
     = real (sum_list (map snd c)) / real n"
  by (induction c) (auto simp: add_divide_distrib)

lemma finishing_prob_of_Inr:
  assumes "Counter ps = f # others"
  shows "finishing_prob_of n (k, ps) =
     Inr \<lparr> fp_driver_id = k,
           fp_position = fst (max_by_count f others),
           fp_probability = real (snd (max_by_count f others)) / real n,
           fp_position_distribution =
             map (\<lambda>(pos, count). (pos, real count / real n)) (Counter ps) \<rparr>"
  by (simp add: finishing_prob_of_def Let_def split_beta assms)

lemma finishing_prob_of_sum:
  assumes "ps \<noteq> []"
  shows "\<exists>e. finishing_prob_of n (k, ps) = Inr e \<and> fp_driver_id e = k
            \<and> sum_list (map snd (fp_position_distribution e)) = real (length ps) / real n"
proof -
  from assms sum_Counter [of ps] have "Counter ps \<noteq> []" by auto
  then obtain f others where c: "Counter ps = f # others" by (cases "Counter ps") auto
  have s: "sum_list (map snd (map (\<lambda>(pos, count). (pos, real count / real n)) (Counter ps)))
          = real (length ps) / real n"
    by (simp only: distribution_sum sum_Counter)
  show ?thesis
    unfolding finishing_prob_of_Inr [OF c] using s by simp
qed

lemma sequence_err_all:
  assumes "\<forall>x \<in> set xs. \<exists>y. f x = Inr y \<and> P x y"
  shows "\<exists>ys. sequence_err (map f xs) = Inr ys \<and> length ys = length xs
             \<and> (\<forall>y \<in> set ys. \<exists>x \<in> set xs. P x y)"
  using assms
proof (induction xs)
  case Nil then show ?case by simp
next
  case (Cons x xs)
  then obtain ys where ys: "sequence_err (map f xs) = Inr ys" "length ys = length xs"
    "\<forall>y \<in> set ys. \<exists>x \<in> set xs. P x y" by auto
  from Cons.prems obtain y where y: "f x = Inr y" "P x y" by auto
  from ys y show ?case by auto
qed

lemma analyze_sum:
  assumes "\<forall>r \<in> set results. distinct (sr_finishing_order r) \<and> set (sr_finishing_order r) = ids"
  shows "\<exists>probs. analyze_finishing_positions results = Inr probs
           \<and> (\<forall>e \<in> set probs. sum_list (map snd (fp_position_distribution e)) = 1)"
proof -
  let ?n = "length results"
  have "\<forall>x \<in> set (collect_positions results). \<exists>y. finishing_prob_of ?n x = Inr y
          \<and> sum_list (map snd (fp_position_distribution y)) = 1"
  proof
    fix x assume x: "x \<in> set (collect_positions results)"
    obtain k ps where kp: "x = (k, ps)" by (cases x)
    from entry_length [OF assms] x kp have l: "length ps = ?n" "ps \<noteq> []" by auto
    then have "real (length ps) / real ?n = 1" by auto
    with finishing_prob_of_sum [OF l(2), of ?n k] kp
    show "\<exists>y. finishing_prob_of ?n x = Inr y
          \<and> sum_list (map snd (fp_position_distribution y)) = 1" by auto
  qed
  from sequence_err_all [where P = "\<lambda>x y. sum_list (map snd (fp_position_distribution y)) = 1", OF this]
  obtain ys where "sequence_err (map (finishing_prob_of ?n) (collect_positions results)) = Inr ys"
    "\<forall>y \<in> set ys. sum_list (map snd (fp_position_distribution y)) = 1" by auto
  then show ?thesis by (simp add: analyze_finishing_positions_def Let_def)
qed

lemma run_simulations_results:
  assumes "run_simulations cls n drivers driver_twins total_laps current_lap weather_data
             opts g = Inr (results, g')"
  shows "length results = n
         \<and> (\<forall>r \<in> set results. distinct (sr_finishing_order r)
               \<and> set (sr_finishing_order r) = set (map dr_id drivers))"
  using assms
proof (induction n arbitrary: g results)
  case 0 then show ?case by simp
next
  case (Suc n)
  from Suc.prems obtain r g1 rs where
    r: "simulate_single_race_with cls drivers driver_twins total_laps current_lap
          weather_data opts g = Inr (r, g1)"
    and rs: "run_simulations cls n drivers driver_twins total_laps current_lap weather_data
          opts g1 = Inr (rs, g')"
    and res: "results = r # rs"
    by (auto split: sum.splits)
  from Suc.IH [OF rs] finishing_order_distinct_ids [OF r] res show ?case by simp
qed

lemma run_simulations_sum:
  assumes "run_simulations cls n drivers driver_twins total_laps current_lap weather_data
             opts g = Inr (results, g')"
  shows "\<exists>probs. analyze_finishing_positions results = Inr probs
           \<and> (\<forall>e \<in> set probs. sum_list (map snd (fp_position_distribution e)) = 1)"
proof -
  from run_simulations_results [OF assms]
  have "\<forall>r \<in> set results. distinct (sr_finishing_order r)
          \<and> set (sr_finishing_order r) = set (map dr_id drivers)" by simp
  then show ?thesis by (rule analyze_sum)
qed

text \<open>
  Claim C4, in two parts. For every list of simulation results whose finishing orders are
  duplicate-free and list the same set of drivers, \<open>_analyze_finishing_positions\<close> returns,
  and for every driver of its output the values of \<open>position_distribution\<close> (count over
  number of simulations) sum to 1, hence to 1.0 within 1e-6. The results collected by the
  simulation loop of one \<open>simulate_race\<close> call (any number of simulations, the same driver
  list in each, any class bound to \<open>TireDegradationModel\<close>) are such a list; with the class
  \<open>race_twin.py\<close> imports the loop returns only when no lap is left to simulate. In exact
  arithmetic: each driver finishes exactly once in every simulation, so its counts add up
  to the number of simulations.
\<close>

theorem C4_position_distribution_sums_to_one:
  "((\<forall>r \<in> set results. distinct (sr_finishing_order r) \<and> set (sr_finishing_order r) = ids)
      \<longrightarrow> (\<exists>probs. analyze_finishing_positions results = Inr probs
             \<and> (\<forall>e \<in> set probs.
                   sum_list (map snd (fp_position_distribution e)) = 1
                   \<and> \<bar>sum_list (map snd (fp_position_distribution e)) - 1.0\<bar> \<le> 1 / 10 ^ 6)))
   \<and> (run_simulations cls n drivers driver_twins total_laps current_lap weather_data
         opts g = Inr (sims, g')
      \<longrightarrow> (\<exists>probs. analyze_finishing_positions sims = Inr probs
             \<and> (\<forall>e \<in> set probs.
                   sum_list (map snd (fp_position_distribution e)) = 1
                   \<and> \<bar>sum_list (map snd (fp_position_distribution e)) - 1.0\<bar> \<le> 1 / 10 ^ 6)))"
proof (intro conjI impI)
  assume "\<forall>r \<in> set results. distinct (sr_finishing_order r) \<and> set (sr_finishing_order r) = ids"
  from analyze_sum [OF this]
  show "\<exists>probs. analyze_finishing_positions results = Inr probs
             \<and> (\<forall>e \<in> set probs.
                   sum_list (map snd (fp_position_distribution e)) = 1
                   \<and> \<bar>sum_list (map snd (fp_position_distribution e)) - 1.0\<bar> \<le> 1 / 10 ^ 6)"
    by auto
next
  assume "run_simulations cls n drivers driver_twins total_laps current_lap weather_data
         opts g = Inr (sims, g')"
  from run_simulations_sum [OF this]
  show "\<exists>probs. analyze_finishing_positions sims = Inr probs
             \<and> (\<forall>e \<in> set probs.
                   sum_list (map snd (fp_position_distribution e)) = 1
                   \<and> \<bar>sum_list (map snd (fp_position_distribution e)) - 1.0\<bar> \<le> 1 / 10 ^ 6)"
    by auto
qed

lemma example_analyze:
  "sr_finishing_order res = [''A'', ''B''] \<Longrightarrow>
   analyze_finishing_positions [res, res] =
     Inr [\<lparr> fp_driver_id = ''A'', fp_position = 1, fp_probability = 1,
              fp_position_distribution = [(1, 1)] \<rparr>,
          \<lparr> fp_driver_id = ''B'', fp_position = 2, fp_probability = 1,
              fp_position_distribution = [(2, 1)] \<rparr>]"
  by (simp add: analyze_finishing_positions_def collect_positions_def enumerate1_def
      finishing_prob_of_def Counter_def max_by_count_def Let_def upt_rec)

lemma example_analyze_three:
  "analyze_finishing_positions example_results =
     Inr [\<lparr> fp_driver_id = ''B'', fp_position = 1, fp_probability = 2 / 3,
              fp_position_distribution = [(2, 1 / 3), (1, 2 / 3)] \<rparr>,
          \<lparr> fp_driver_id = ''A'', fp_position = 2, fp_probability = 2 / 3,
              fp_position_distribution = [(1, 1 / 3), (2, 2 / 3)] \<rparr>]"
  by (simp add: analyze_finishing_positions_def collect_positions_def enumerate1_def
      finishing_prob_of_def Counter_def max_by_count_def Let_def upt_rec example_results_def)

lemma sums_of_two:
  assumes "\<forall>e \<in> set probs. f e = (1::real) \<and> Q e" and "length probs = 2"
  shows "map f probs = [1, 1]"
proof -
  from assms(2) obtain a b where "probs = [a, b]"
    by (cases probs; cases "tl probs") auto
  with assms(1) show ?thesis by simp
qed

theorem C4_position_distribution_sums_to_one_witness:
  "(\<exists>probs. analyze_finishing_positions example_results = Inr probs
       \<and> map fp_driver_id probs = [''B'', ''A'']
       \<and> map fp_position_distribution probs
           = [[(2, 1 / 3), (1, 2 / 3)], [(1, 1 / 3), (2, 2 / 3)]]
       \<and> map (\<lambda>e. sum_list (map snd (fp_position_distribution e))) probs = [1, 1])
   \<and> (\<exists>results g' probs.
       run_simulations degradation_TireDegradationModel 2 example_drivers example_twins 0 1
         None None example_rng = Inr (results, g')
       \<and> length results = 2
       \<and> analyze_finishing_positions results = Inr probs
       \<and> map fp_driver_id probs = [''A'', ''B'']
       \<and> map fp_position_distribution probs = [[(1, 1)], [(2, 1)]]
       \<and> map (\<lambda>e. sum_list (map snd (fp_position_distribution e))) probs = [1, 1])"
proof -
  obtain res where run1:
    "simulate_single_race_with degradation_TireDegradationModel example_drivers
       example_twins 0 1 None None example_rng = Inr (res, example_rng)"
    and order: "sr_finishing_order res = [''A'', ''B'']"
    using example_run_no_laps unfolding simulate_single_race_def by blast
  have run: "run_simulations degradation_TireDegradationModel 2 example_drivers example_twins
        0 1 None None example_rng = Inr ([res, res], example_rng)"
    by (simp add: numeral_2_eq_2 run1)
  have perm: "\<forall>r \<in> set example_results.
      distinct (sr_finishing_order r) \<and> set (sr_finishing_order r) = {''A'', ''B''}"
    by (auto simp: example_results_def)
  note inst = C4_position_distribution_sums_to_one
    [of example_results "{''A'', ''B''}" degradation_TireDegradationModel 2 example_drivers
        example_twins 0 1 None None example_rng "[res, res]" example_rng]
  from inst perm obtain probs3 where
    probs3: "analyze_finishing_positions example_results = Inr probs3"
    and sums3: "\<forall>e \<in> set probs3. sum_list (map snd (fp_position_distribution e)) = 1
        \<and> \<bar>sum_list (map snd (fp_position_distribution e)) - 1.0\<bar> \<le> 1 / 10 ^ 6"
    by blast
  from inst run obtain probs where
    probs: "analyze_finishing_positions [res, res] = Inr probs"
    and sums: "\<forall>e \<in> set probs. sum_list (map snd (fp_position_distribution e)) = 1
        \<and> \<bar>sum_list (map snd (fp_position_distribution e)) - 1.0\<bar> \<le> 1 / 10 ^ 6"
    by blast
  from probs3 example_analyze_three
  have ids3: "map fp_driver_id probs3 = [''B'', ''A'']"
    and dist3: "map fp_position_distribution probs3
           = [[(2, 1 / 3), (1, 2 / 3)], [(1, 1 / 3), (2, 2 / 3)]]"
    and len3: "length probs3 = 2" by auto
  from probs example_analyze [OF order]
  have ids: "map fp_driver_id probs = [''A'', ''B'']"
    and dist: "map fp_position_distribution probs = [[(1, 1)], [(2, 1)]]"
    and len: "length probs = 2" by auto
  have one: "\<exists>probs. analyze_finishing_positions example_results = Inr probs
       \<and> map fp_driver_id probs = [''B'', ''A'']
       \<and> map fp_position_distribution probs
           = [[(2, 1 / 3), (1, 2 / 3)], [(1, 1 / 3), (2, 2 / 3)]]
       \<and> map (\<lambda>e. sum_list (map snd (fp_position_distribution e))) probs = [1, 1]"
    using probs3 ids3 dist3 sums_of_two [OF sums3 len3] by (intro exI [of _ probs3] conjI)
  have two: "\<exists>results g' probs.
       run_simulations degradation_TireDegradationModel 2 example_drivers example_twins 0 1
         None None example_rng = Inr (results, g')
       \<and> length results = 2
       \<and> analyze_finishing_positions results = Inr probs
       \<and> map fp_driver_id probs = [''A'', ''B'']
       \<and> map fp_position_distribution probs = [[(1, 1)], [(2, 1)]]
       \<and> map (\<lambda>e. sum_list (map snd (fp_position_distribution e))) probs = [1, 1]"
    using run probs ids dist sums_of_two [OF sums len]
    by (intro exI [of _ "[res, res]"] exI [of _ example_rng] exI [of _ probs] conjI) simp_all
  from one two show ?thesis by (rule conjI)
qed

end
